theory Spec2Isabelle
  imports Main "HOL-Library.Word" "HOL-Library.Sublist"
begin

section \<open>Social media post engagement dashboard: the data pipeline of app.py\<close>

text \<open>
  The dashboard reads a CSV file into a pandas DataFrame, normalises the column names,
  coerces the columns it needs (\<open>load_data\<close>), filters the result by the sidebar controls
  and computes a handful of aggregate views. This theory embeds that pipeline.

  pandas itself is not part of the repository. Its parsers are parameters of the model
  (record \<open>pandas\<close>); the operations whose result is fixed by the pandas documentation
  (\<open>nlargest\<close>, \<open>idxmax\<close>, \<open>groupby(...).sum()\<close>, \<open>isin\<close>) are written out after it.
  Numbers are numpy's \<open>int64\<close>, that is \<open>64 word\<close> read through \<open>sint\<close>; floating-point
  cells are outside the model. A Python \<open>str\<close> is the list of the bytes of its UTF-8
  encoding; \<open>strip\<close> removes every character that Python counts as whitespace, and
  \<open>lower\<close> maps the ASCII capital letters and leaves every other byte as it is.
\<close>

subsection \<open>Cells, timestamps and the library interface\<close>

text \<open>A value of the table that \<open>pd.read_csv\<close> returns: an integer, a string or a missing value.\<close>

datatype cell = Int64 "64 word" | Text string | NaN

text \<open>
  A \<open>datetime64[ns]\<close> value: the calendar day as Python's proleptic Gregorian ordinal
  (\<open>datetime.date.toordinal\<close>, day 1 is Monday 0001-01-01) and the time of day in nanoseconds.
  \<open>None\<close> of \<open>timestamp option\<close> is \<open>NaT\<close>.
\<close>

datatype timestamp = Timestamp (date: int) (time_of_day: nat)

datatype weekday = Monday | Tuesday | Wednesday | Thursday | Friday | Saturday | Sunday

text \<open>
  The library functions the code calls and whose behaviour the repository does not fix:
  \<^item> \<open>to_datetime col c\<close>: what \<open>pd.to_datetime(col, errors='coerce')\<close> yields for the cell
    \<open>c\<close> of the column \<open>col\<close> (the column is an argument because pandas infers one format
    for the whole column);
  \<^item> \<open>to_numeric s\<close>: what \<open>pd.to_numeric(..., errors='coerce')\<close> followed by
    \<open>astype(int)\<close> yields for a string cell, \<open>None\<close> when it does not parse;
  \<^item> \<open>observed\<close>: the default of \<open>groupby\<close>'s parameter \<open>observed\<close>, which the code never
    passes (\<open>False\<close> up to pandas 2).
\<close>

record pandas =
  to_datetime :: "cell list \<Rightarrow> cell \<Rightarrow> timestamp option"
  to_numeric :: "string \<Rightarrow> 64 word option"
  observed :: bool

datatype exn = ValueError string | TypeError string | AttributeError string

fun exn_str :: "exn \<Rightarrow> string" where
  "exn_str (ValueError m) = m"
| "exn_str (TypeError m) = m"
| "exn_str (AttributeError m) = m"

text \<open>What \<open>st.error\<close> and \<open>st.warning\<close> show, in the order of the calls.\<close>

datatype diagnostic = St_error string | St_warning string

subsection \<open>Strings\<close>

text \<open>
  The characters for which \<open>str.isspace\<close> holds, each in UTF-8: the ASCII ones,
  U+0085, U+00A0, U+1680, U+2000 to U+200A, U+2028, U+2029, U+202F, U+205F and U+3000.
\<close>

definition whitespace :: "string list" where
  "whitespace =
     [[CHR 0x09], [CHR 0x0A], [CHR 0x0B], [CHR 0x0C], [CHR 0x0D],
      [CHR 0x1C], [CHR 0x1D], [CHR 0x1E], [CHR 0x1F], [CHR 0x20],
      [CHR 0xC2, CHR 0x85], [CHR 0xC2, CHR 0xA0],
      [CHR 0xE1, CHR 0x9A, CHR 0x80],
      [CHR 0xE2, CHR 0x80, CHR 0x80], [CHR 0xE2, CHR 0x80, CHR 0x81],
      [CHR 0xE2, CHR 0x80, CHR 0x82], [CHR 0xE2, CHR 0x80, CHR 0x83],
      [CHR 0xE2, CHR 0x80, CHR 0x84], [CHR 0xE2, CHR 0x80, CHR 0x85],
      [CHR 0xE2, CHR 0x80, CHR 0x86], [CHR 0xE2, CHR 0x80, CHR 0x87],
      [CHR 0xE2, CHR 0x80, CHR 0x88], [CHR 0xE2, CHR 0x80, CHR 0x89],
      [CHR 0xE2, CHR 0x80, CHR 0x8A],
      [CHR 0xE2, CHR 0x80, CHR 0xA8], [CHR 0xE2, CHR 0x80, CHR 0xA9],
      [CHR 0xE2, CHR 0x80, CHR 0xAF], [CHR 0xE2, CHR 0x81, CHR 0x9F],
      [CHR 0xE3, CHR 0x80, CHR 0x80]]"

text \<open>Remove from the front of \<open>s\<close> every leading occurrence of one of the strings \<open>ws\<close>.\<close>

function drop_leading :: "string list \<Rightarrow> string \<Rightarrow> string" where
  "drop_leading ws s =
     (case find (\<lambda>w. w \<noteq> [] \<and> prefix w s) ws of
        None \<Rightarrow> s
      | Some w \<Rightarrow> drop_leading ws (drop (length w) s))"
  by pat_completeness auto
termination
proof (relation "measure (\<lambda>(ws, s). length s)")
  show "wf (measure (\<lambda>(ws, s). length s))" by simp
next
  fix ws :: "string list" and s w :: string
  assume "find (\<lambda>w. w \<noteq> [] \<and> prefix w s) ws = Some w"
  then have "w \<noteq> []" and "prefix w s"
    by (auto simp: find_Some_iff)
  then have "0 < length w" and "length w \<le> length s"
    by (auto simp: prefix_length_le)
  then have "length s - length w < length s"
    by arith
  then show "((ws, drop (length w) s), (ws, s)) \<in> measure (\<lambda>(ws, s). length s)"
    by simp
qed

declare drop_leading.simps [simp del]

text \<open>\<open>str.strip()\<close>: whitespace goes from the front, then from the back.\<close>

definition strip :: "string \<Rightarrow> string" where
  "strip s = rev (drop_leading (map rev whitespace) (rev (drop_leading whitespace s)))"

definition replace_char :: "char \<Rightarrow> string \<Rightarrow> string \<Rightarrow> string" where
  "replace_char old new s = concat (map (\<lambda>c. if c = old then new else [c]) s)"

definition lower_char :: "char \<Rightarrow> char" where
  "lower_char c =
     (case map_of (zip ''ABCDEFGHIJKLMNOPQRSTUVWXYZ'' ''abcdefghijklmnopqrstuvwxyz'') c of
        Some l \<Rightarrow> l | None \<Rightarrow> c)"

definition upper_char :: "char \<Rightarrow> char" where
  "upper_char c =
     (case map_of (zip ''abcdefghijklmnopqrstuvwxyz'' ''ABCDEFGHIJKLMNOPQRSTUVWXYZ'') c of
        Some u \<Rightarrow> u | None \<Rightarrow> c)"

definition lower :: "string \<Rightarrow> string" where
  "lower s = map lower_char s"

definition capitalize :: "string \<Rightarrow> string" where
  "capitalize s = (case s of [] \<Rightarrow> [] | c # cs \<Rightarrow> upper_char c # lower cs)"

text \<open>\<open>str(n)\<close> for an integer.\<close>

fun digits :: "nat \<Rightarrow> string" where
  "digits n = (if n < 10 then [''0123456789'' ! n]
               else digits (n div 10) @ [''0123456789'' ! (n mod 10)])"

declare digits.simps [simp del]

definition str_int :: "int \<Rightarrow> string" where
  "str_int i = (if i < 0 then CHR ''-'' # digits (nat (- i)) else digits (nat i))"

text \<open>\<open>astype(str)\<close> on one cell.\<close>

fun astype_str :: "cell \<Rightarrow> string" where
  "astype_str (Int64 n) = str_int (sint n)"
| "astype_str (Text s) = s"
| "astype_str NaN = ''nan''"

subsection \<open>Column names\<close>

text \<open>
  Line 23: \<open>col.strip().replace(' ', '_').replace('.', '').lower()\<close>.
\<close>

definition normalize_col :: "string \<Rightarrow> string" where
  "normalize_col col =
     lower (replace_char (CHR ''.'') '''' (replace_char (CHR '' '') ''_'' (strip col)))"

text \<open>
  The transform as the specification words it: trim, replace each space and each dot with
  an underscore, lower-case.
\<close>

definition spec_normalize_col :: "string \<Rightarrow> string" where
  "spec_normalize_col col =
     lower (replace_char (CHR ''.'') ''_'' (replace_char (CHR '' '') ''_'' (strip col)))"

subsection \<open>Tables\<close>

text \<open>
  The result of \<open>pd.read_csv\<close>: the header and the rows, each row a list of cells in the
  order of the header. A row shorter than the header reads as \<open>NaN\<close> in the columns it
  lacks, as \<open>read_csv\<close> fills them.
\<close>

record raw_table =
  columns :: "string list"
  data :: "cell list list"

text \<open>\<open>df[name]\<close> at one row: the cell of the first column of that name.\<close>

definition column_of :: "string list \<Rightarrow> string \<Rightarrow> cell list \<Rightarrow> cell" where
  "column_of cols name row = (case map_of (zip cols row) name of Some c \<Rightarrow> c | None \<Rightarrow> NaN)"

text \<open>
  A row of the DataFrame that \<open>load_data\<close> returns, with the columns the dashboard reads.
  \<open>label\<close> is the row's index label (\<open>read_csv\<close> numbers the rows from 0, and neither
  \<open>dropna\<close> nor boolean indexing renumbers them).
\<close>

record post =
  label :: nat
  post_id :: string
  post_date :: "timestamp option"
  day_of_week :: "weekday option"
  day_of_week_num :: "nat option"
  likes :: "64 word"
  shares :: "64 word"
  comments :: "64 word"
  total_engagement_per_post :: "64 word"
  content_type :: cell

text \<open>
  A DataFrame after \<open>load_data\<close>: its column labels, whether \<open>day_of_week\<close> is the ordered
  categorical of line 41 (it is a column of \<open>None\<close> otherwise), and its rows.
  \<open>pd.DataFrame()\<close> has no column and no row.
\<close>

record dataframe =
  df_columns :: "string list"
  day_of_week_categorical :: bool
  rows :: "post list"

definition pd_DataFrame :: dataframe where
  "pd_DataFrame = \<lparr>df_columns = [], day_of_week_categorical = False, rows = []\<rparr>"

text \<open>\<open>df.empty\<close>: some axis has length 0.\<close>

definition df_empty :: "dataframe \<Rightarrow> bool" where
  "df_empty df = (df_columns df = [] \<or> rows df = [])"

text \<open>\<open>df[name] = ...\<close> on the column labels: a new label is appended.\<close>

definition set_column :: "string \<Rightarrow> string list \<Rightarrow> string list" where
  "set_column name cols = (if name \<in> set cols then cols else cols @ [name])"

subsection \<open>Dates\<close>

definition day_order :: "weekday list" where
  "day_order = [Monday, Tuesday, Wednesday, Thursday, Friday, Saturday, Sunday]"

text \<open>\<open>dt.dayofweek\<close> (Monday is 0) and \<open>dt.day_name()\<close>.\<close>

definition dayofweek :: "timestamp \<Rightarrow> nat" where
  "dayofweek ts = nat ((date ts + 6) mod 7)"

definition day_name :: "timestamp \<Rightarrow> weekday" where
  "day_name ts = day_order ! dayofweek ts"

subsection \<open>load_data\<close>

definition msg_post_id :: string where
  "msg_post_id = ''Error: The column 'Post_ID' (or 'Post ID') was not found in your CSV. Please ensure your CSV has a column named 'Post_ID' or 'Post ID'.''"

definition msg_post_date :: string where
  "msg_post_date = ''Warning: 'Post_Date' column not found. Date-based analysis will be skipped.''"

definition msg_engagement :: "string \<Rightarrow> string" where
  "msg_engagement col =
     ''Warning: '' @ [CHR 0x27] @ capitalize col @ [CHR 0x27] @ '' column not found. Setting to 0 for calculations.''"

definition msg_content_type :: string where
  "msg_content_type = ''Warning: 'Content_Type' column not found. Post type distribution will be skipped.''"

definition msg_load :: string where
  "msg_load = ''Error loading or processing data. Please check your CSV format: ''"

text \<open>
  Lines 23 to 29, the schema normaliser: rename the columns and require \<open>post_id\<close>.
\<close>

definition schema_normalizer :: "raw_table \<Rightarrow> diagnostic + raw_table" where
  "schema_normalizer t =
     (let cols = map normalize_col (columns t) in
      if ''post_id'' \<notin> set cols then Inl (St_error msg_post_id)
      else Inr (t\<lparr>columns := cols\<rparr>))"

text \<open>
  \<open>pd.to_numeric(df[col], errors='coerce')\<close> then \<open>astype(int)\<close>, on one cell;
  \<open>None\<close> is the \<open>NaN\<close> that \<open>fillna(0)\<close> replaces.
\<close>

definition pd_to_numeric :: "pandas \<Rightarrow> cell \<Rightarrow> 64 word option" where
  "pd_to_numeric pd c = (case c of Int64 n \<Rightarrow> Some n | Text s \<Rightarrow> to_numeric pd s | NaN \<Rightarrow> None)"

text \<open>
  Lines 33 to 46. With \<open>post_date\<close> present the column is parsed and the rows whose value
  is \<open>NaT\<close> are dropped; each surviving row keeps its label and carries its timestamp.
  When two columns are named \<open>post_date\<close>, \<open>df['post_date']\<close> is a frame and
  \<open>pd.to_datetime\<close> raises \<open>ValueError\<close>.
\<close>

definition date_stage ::
  "pandas \<Rightarrow> string list \<Rightarrow> cell list list \<Rightarrow>
     diagnostic list \<times> (exn + (nat \<times> cell list \<times> timestamp option) list)" where
  "date_stage pd cols rs =
     (if ''post_date'' \<in> set cols then
        if 1 < count_list cols ''post_date''
        then ([], Inl (ValueError ''cannot assemble with duplicate keys''))
        else
          let col = map (column_of cols ''post_date'') rs;
              parsed = map (to_datetime pd col) col
          in ([], Inr (filter (\<lambda>(i, r, d). d \<noteq> None) (zip [0..<length rs] (zip rs parsed))))
      else ([St_warning msg_post_date],
            Inr (map (\<lambda>(i, r). (i, r, None)) (zip [0..<length rs] rs))))"

definition engagement_cols :: "string list" where
  "engagement_cols = [''likes'', ''shares'', ''comments'']"

text \<open>
  The loop of lines 51 to 56, for what it shows and raises: a warning for each absent
  column; \<open>pd.to_numeric\<close> raises \<open>TypeError\<close> on a frame, that is when two columns carry
  the name.
\<close>

fun engagement_loop :: "string list \<Rightarrow> string list \<Rightarrow> diagnostic list \<times> exn option" where
  "engagement_loop cols [] = ([], None)"
| "engagement_loop cols (col # rest) =
     (if col \<in> set cols then
        if 1 < count_list cols col
        then ([], Some (TypeError ''arg must be a list, tuple, 1-d array, or Series''))
        else engagement_loop cols rest
      else (case engagement_loop cols rest of
              (ds, e) \<Rightarrow> (St_warning (msg_engagement col) # ds, e)))"

text \<open>The value the loop leaves in column \<open>col\<close> of one row (lines 53 and 56).\<close>

definition engagement :: "pandas \<Rightarrow> string list \<Rightarrow> string \<Rightarrow> cell list \<Rightarrow> 64 word" where
  "engagement pd cols col row =
     (if col \<in> set cols
      then (case pd_to_numeric pd (column_of cols col row) of Some n \<Rightarrow> n | None \<Rightarrow> 0)
      else 0)"

text \<open>One row of the result: lines 30, 37, 38, 53 to 59 and 64.\<close>

definition make_post :: "pandas \<Rightarrow> string list \<Rightarrow> nat \<times> cell list \<times> timestamp option \<Rightarrow> post" where
  "make_post pd cols x =
     (case x of (i, row, d) \<Rightarrow>
        let l = engagement pd cols ''likes'' row;
            s = engagement pd cols ''shares'' row;
            c = engagement pd cols ''comments'' row
        in \<lparr>label = i,
            post_id = astype_str (column_of cols ''post_id'' row),
            post_date = d,
            day_of_week = map_option day_name d,
            day_of_week_num = map_option dayofweek d,
            likes = l, shares = s, comments = c,
            total_engagement_per_post = l + s + c,
            content_type = (if ''content_type'' \<notin> set cols then Text ''Unknown''
                            else column_of cols ''content_type'' row)\<rparr>)"

definition result_columns :: "string list \<Rightarrow> string list" where
  "result_columns cols =
     foldl (\<lambda>cs name. set_column name cs) cols
       [''post_date'', ''day_of_week'', ''day_of_week_num'', ''likes'', ''shares'', ''comments'',
        ''total_engagement_per_post'', ''content_type'']"

text \<open>Lines 30 to 66, the field coercer, on a table whose columns are already renamed.\<close>

definition coerce :: "pandas \<Rightarrow> raw_table \<Rightarrow> diagnostic list \<times> (exn + dataframe)" where
  "coerce pd t =
     (let cols = columns t in
      case date_stage pd cols (data t) of
        (ds1, Inl e) \<Rightarrow> (ds1, Inl e)
      | (ds1, Inr kept) \<Rightarrow>
          (case engagement_loop cols engagement_cols of
             (ds2, Some e) \<Rightarrow> (ds1 @ ds2, Inl e)
           | (ds2, None) \<Rightarrow>
               (ds1 @ ds2 @
                  (if ''content_type'' \<notin> set cols then [St_warning msg_content_type] else []),
                Inr \<lparr>df_columns = result_columns cols,
                     day_of_week_categorical = (''post_date'' \<in> set cols),
                     rows = map (make_post pd cols) kept\<rparr>)))"

text \<open>
  \<open>load_data\<close>, with its \<open>try\<close>/\<open>except\<close>: the DataFrame it returns and what it has shown.
\<close>

definition load_data :: "pandas \<Rightarrow> raw_table \<Rightarrow> dataframe \<times> diagnostic list" where
  "load_data pd t =
     (case schema_normalizer t of
        Inl e \<Rightarrow> (pd_DataFrame, [e])
      | Inr t' \<Rightarrow>
          (case coerce pd t' of
             (ds, Inl e) \<Rightarrow> (pd_DataFrame, ds @ [St_error (msg_load @ exn_str e)])
           | (ds, Inr df) \<Rightarrow> (df, ds)))"

subsection \<open>The sidebar: controls and filters\<close>

text \<open>
  What the user sets: the content types chosen in the multiselect, the "Enable Date
  Filter" checkbox, and the two ends of the date slider.
\<close>

record controls =
  multiselect :: "cell list"
  checkbox :: bool
  slider :: "int \<times> int"

text \<open>\<open>df['post_date'].min().date()\<close>: \<open>None\<close> is \<open>NaT\<close>, the minimum of no value.\<close>

definition dates_of :: "dataframe \<Rightarrow> int list" where
  "dates_of df = concat (map (\<lambda>r. case post_date r of None \<Rightarrow> [] | Some ts \<Rightarrow> [date ts]) (rows df))"

definition min_date :: "dataframe \<Rightarrow> int option" where
  "min_date df = (if dates_of df = [] then None else Some (Min (set (dates_of df))))"

definition max_date :: "dataframe \<Rightarrow> int option" where
  "max_date df = (if dates_of df = [] then None else Some (Max (set (dates_of df))))"

text \<open>
  Lines 99 to 119: the final values of \<open>date_filter_enabled\<close> and \<open>min_date_data\<close>.
  For \<open>min_date_data\<close>, \<open>None\<close> is Python's \<open>None\<close> and \<open>Some None\<close> is \<open>NaT\<close>.
  The column \<open>post_date\<close> of a loaded table always has dtype \<open>datetime64[ns]\<close>.
\<close>

definition date_controls :: "dataframe \<Rightarrow> controls \<Rightarrow> bool \<times> int option option" where
  "date_controls df ui =
     (if ''post_date'' \<in> set (df_columns df) \<and> rows df \<noteq> [] then
        if checkbox ui then
          if min_date df = None \<or> max_date df = None then (False, Some (min_date df))
          else (True, Some (min_date df))
        else (False, None)
      else (False, None))"

text \<open>Lines 124 and 125.\<close>

definition category_filter :: "dataframe \<Rightarrow> cell list \<Rightarrow> dataframe" where
  "category_filter df selected_post_types =
     (if ''content_type'' \<in> set (df_columns df) \<and> Text ''All'' \<notin> set selected_post_types
      then df\<lparr>rows := filter (\<lambda>r. content_type r \<in> set selected_post_types) (rows df)\<rparr>
      else df)"

text \<open>Lines 127 to 131; \<open>dt.date\<close> drops the time of day, and \<open>NaT\<close> compares false.\<close>

definition in_range :: "int \<times> int \<Rightarrow> post \<Rightarrow> bool" where
  "in_range date_range_selection r =
     (case post_date r of
        None \<Rightarrow> False
      | Some ts \<Rightarrow> fst date_range_selection \<le> date ts \<and> date ts \<le> snd date_range_selection)"

definition date_filter :: "dataframe \<Rightarrow> bool \<Rightarrow> int option option \<Rightarrow> int \<times> int \<Rightarrow> dataframe" where
  "date_filter df date_filter_enabled min_date_data date_range_selection =
     (if date_filter_enabled \<and> min_date_data \<noteq> None
      then df\<lparr>rows := filter (in_range date_range_selection) (rows df)\<rparr>
      else df)"

text \<open>
  Lines 88 to 131: from the loaded table and the controls to \<open>df_filtered\<close>.
  Line 91 raises \<open>AttributeError\<close> when two columns are named \<open>content_type\<close>, since a
  frame has no \<open>unique\<close>.
\<close>

definition sidebar :: "dataframe \<Rightarrow> controls \<Rightarrow> exn + dataframe" where
  "sidebar df ui =
     (let has_types = (''content_type'' \<in> set (df_columns df) \<and> \<not> df_empty df) in
      if has_types \<and> 1 < count_list (df_columns df) ''content_type''
      then Inl (AttributeError (CHR 0x27 # ''DataFrame' object has no attribute 'unique'' @ [CHR 0x27]))
      else
        let selected_post_types = (if has_types then multiselect ui else [Text ''All'']);
            (date_filter_enabled, min_date_data) = date_controls df ui
        in Inr (date_filter (category_filter df selected_post_types)
                  date_filter_enabled min_date_data (slider ui)))"

subsection \<open>Views\<close>

text \<open>
  \<open>DataFrame.nlargest(n, 'total_engagement_per_post')\<close> with the default \<open>keep='first'\<close>:
  the first \<open>n\<close> rows in descending order of the column, equal values in their original
  order.
\<close>

definition nlargest :: "nat \<Rightarrow> post list \<Rightarrow> post list" where
  "nlargest n rs = take n (sort_key (\<lambda>r. - sint (total_engagement_per_post r)) rs)"

text \<open>Lines 174 to 176.\<close>

definition df_top_posts_for_chart :: "dataframe \<Rightarrow> post list option" where
  "df_top_posts_for_chart df_filtered =
     (if ''post_id'' \<in> set (df_columns df_filtered) \<and>
         (\<forall>col \<in> set [''likes'', ''shares'', ''comments'']. col \<in> set (df_columns df_filtered))
      then Some (nlargest 20 (rows df_filtered))
      else None)"

text \<open>
  \<open>Series.idxmax()\<close>: the label of the first row holding the maximum; it raises
  \<open>ValueError\<close> on an empty series.
\<close>

fun argmax_first :: "post \<Rightarrow> post list \<Rightarrow> post" where
  "argmax_first best [] = best"
| "argmax_first best (r # rs) =
     argmax_first
       (if sint (total_engagement_per_post best) < sint (total_engagement_per_post r) then r else best)
       rs"

definition idxmax :: "post list \<Rightarrow> exn + nat" where
  "idxmax rs =
     (case rs of
        [] \<Rightarrow> Inl (ValueError ''attempt to get argmax of an empty sequence'')
      | r # rest \<Rightarrow> Inr (label (argmax_first r rest)))"

text \<open>
  \<open>df.loc[l]\<close> as a single row: \<open>None\<close> when the label does not select exactly one row.
\<close>

definition loc :: "post list \<Rightarrow> nat \<Rightarrow> post option" where
  "loc rs l = (case filter (\<lambda>r. label r = l) rs of [r] \<Rightarrow> Some r | _ \<Rightarrow> None)"

text \<open>Lines 285 to 287: \<open>None\<close> when the guard of line 285 sends the code elsewhere.\<close>

definition top_post :: "dataframe \<Rightarrow> post option" where
  "top_post df_filtered =
     (if ''post_id'' \<in> set (df_columns df_filtered) \<and>
         ''total_engagement_per_post'' \<in> set (df_columns df_filtered) \<and>
         \<not> df_empty df_filtered
      then (case idxmax (rows df_filtered) of
              Inl e \<Rightarrow> None
            | Inr l \<Rightarrow> loc (rows df_filtered) l)
      else None)"

text \<open>
  \<open>groupby('day_of_week')['total_engagement_per_post'].sum().reset_index()\<close>.
  A categorical key gives one group per category in category order, every category when
  \<open>observed\<close> is false and the categories that occur otherwise; a key that is \<open>None\<close> in
  every row gives no group. The sum is int64 addition.
\<close>

definition groupby_day_of_week :: "pandas \<Rightarrow> dataframe \<Rightarrow> (weekday \<times> 64 word) list" where
  "groupby_day_of_week pd df =
     (let groups =
        (if day_of_week_categorical df then
           if observed pd
           then filter (\<lambda>d. \<exists>r \<in> set (rows df). day_of_week r = Some d) day_order
           else day_order
         else [])
      in map (\<lambda>d. (d, sum_list (map total_engagement_per_post
                                   (filter (\<lambda>r. day_of_week r = Some d) (rows df)))))
             groups)"

text \<open>Lines 229 and 230.\<close>

definition engagement_by_day :: "pandas \<Rightarrow> dataframe \<Rightarrow> (weekday \<times> 64 word) list option" where
  "engagement_by_day pd df_filtered =
     (if ''day_of_week'' \<in> set (df_columns df_filtered) \<and>
         ''total_engagement_per_post'' \<in> set (df_columns df_filtered) \<and>
         rows df_filtered \<noteq> []
      then Some (groupby_day_of_week pd df_filtered)
      else None)"

subsection \<open>A parser instance and the example table of the specification\<close>

text \<open>
  To run the pipeline on concrete tables the library parameters need values. This
  instance reads ISO dates \<open>YYYY-MM-DD\<close> and unsigned decimal numbers, on which it agrees
  with pandas, and rejects everything else. The ordinal of a day follows CPython's
  \<open>datetime\<close> module (\<open>_ymd2ord\<close>).
\<close>

definition digit_of :: "char \<Rightarrow> nat option" where
  "digit_of c = map_of (zip ''0123456789'' [0, 1, 2, 3, 4, 5, 6, 7, 8, 9]) c"

fun decimal :: "nat \<Rightarrow> string \<Rightarrow> nat option" where
  "decimal acc [] = Some acc"
| "decimal acc (c # cs) =
     (case digit_of c of None \<Rightarrow> None | Some d \<Rightarrow> decimal (10 * acc + d) cs)"

definition is_leap :: "nat \<Rightarrow> bool" where
  "is_leap y = (y mod 4 = 0 \<and> (y mod 100 \<noteq> 0 \<or> y mod 400 = 0))"

definition days_in_month :: "nat \<Rightarrow> nat \<Rightarrow> nat" where
  "days_in_month y m =
     (if m = 2 \<and> is_leap y then 29
      else [31, 28, 31, 30, 31, 30, 31, 31, 30, 31, 30, 31] ! (m - 1))"

definition days_before_year :: "nat \<Rightarrow> nat" where
  "days_before_year year = (let y = year - 1 in y * 365 + y div 4 - y div 100 + y div 400)"

definition days_before_month :: "nat \<Rightarrow> nat \<Rightarrow> nat" where
  "days_before_month y m = sum_list (map (days_in_month y) [1..<m])"

definition ymd2ord :: "nat \<Rightarrow> nat \<Rightarrow> nat \<Rightarrow> int" where
  "ymd2ord y m d = int (days_before_year y + days_before_month y m + d)"

definition iso_date :: "string \<Rightarrow> timestamp option" where
  "iso_date s =
     (if length s = 10 \<and> s ! 4 = CHR ''-'' \<and> s ! 7 = CHR ''-'' then
        (case (decimal 0 (take 4 s), decimal 0 (take 2 (drop 5 s)), decimal 0 (drop 8 s)) of
           (Some y, Some m, Some d) \<Rightarrow>
             if 1 \<le> y \<and> 1 \<le> m \<and> m \<le> 12 \<and> 1 \<le> d \<and> d \<le> days_in_month y m
             then Some (Timestamp (ymd2ord y m d) 0)
             else None
         | _ \<Rightarrow> None)
      else None)"

definition iso_pandas :: pandas where
  "iso_pandas =
     \<lparr>to_datetime = (\<lambda>col c. case c of Text s \<Rightarrow> iso_date s | _ \<Rightarrow> None),
      to_numeric = (\<lambda>s. if s = [] then None else map_option of_nat (decimal 0 s)),
      observed = False\<rparr>"

text \<open>The two posts of the specification's example, as \<open>read_csv\<close> returns them.\<close>

definition example_table :: raw_table where
  "example_table =
     \<lparr>columns = [''post_id'', ''likes'', ''shares'', ''comments'', ''content_type'', ''post_date''],
      data = [[Int64 1, Int64 10, Int64 2, Int64 1, Text ''Video'', Text ''2024-01-01''],
              [Int64 2, Int64 5, Int64 5, Int64 5, Text ''Image'', Text ''2024-01-02'']]\<rparr>"

subsection \<open>Notions used to state the properties\<close>

text \<open>What line 34 puts in \<open>post_date\<close> at the row with label \<open>i\<close>: a timestamp or \<open>NaT\<close>.\<close>

definition parsed_date :: "pandas \<Rightarrow> string list \<Rightarrow> cell list list \<Rightarrow> nat \<Rightarrow> timestamp option" where
  "parsed_date pd cols rs i =
     (let col = map (column_of cols ''post_date'') rs in to_datetime pd col (col ! i))"

text \<open>\<open>df[col]\<close> at one row of the result, for the three engagement columns.\<close>

definition metric :: "string \<Rightarrow> post \<Rightarrow> 64 word" where
  "metric col r =
     (if col = ''likes'' then likes r else if col = ''shares'' then shares r else comments r)"

text \<open>The table that \<open>load_data\<close> returns for \<open>example_table\<close>.\<close>

definition example_df :: dataframe where
  "example_df =
     \<lparr>df_columns = [''post_id'', ''likes'', ''shares'', ''comments'', ''content_type'', ''post_date'',
                    ''day_of_week'', ''day_of_week_num'', ''total_engagement_per_post''],
      day_of_week_categorical = True,
      rows = [\<lparr>label = 0, post_id = ''1'', post_date = Some (Timestamp 738886 0),
                day_of_week = Some Monday, day_of_week_num = Some 0,
                likes = 10, shares = 2, comments = 1, total_engagement_per_post = 13,
                content_type = Text ''Video''\<rparr>,
              \<lparr>label = 1, post_id = ''2'', post_date = Some (Timestamp 738887 0),
                day_of_week = Some Tuesday, day_of_week_num = Some 1,
                likes = 5, shares = 5, comments = 5, total_engagement_per_post = 15,
                content_type = Text ''Image''\<rparr>]\<rparr>"

text \<open>A table with a negative count, and one that brings its own total.\<close>

definition negative_likes_table :: raw_table where
  "negative_likes_table = \<lparr>columns = [''Post ID'', ''Likes''], data = [[Int64 7, Int64 (- 5)]]\<rparr>"

definition stale_total_table :: raw_table where
  "stale_total_table =
     \<lparr>columns = [''post_id'', ''likes'', ''total_engagement_per_post''],
      data = [[Int64 1, Int64 10, Int64 999]]\<rparr>"

definition stale_total_post :: post where
  "stale_total_post =
     \<lparr>label = 0, post_id = ''1'', post_date = None, day_of_week = None, day_of_week_num = None,
      likes = 10, shares = 0, comments = 0, total_engagement_per_post = 10,
      content_type = Text ''Unknown''\<rparr>"

text \<open>A table whose second row has a date that does not parse.\<close>

definition bad_date_table :: raw_table where
  "bad_date_table =
     \<lparr>columns = [''Post ID'', ''Post Date'', ''Likes''],
      data = [[Int64 1, Text ''2024-01-01'', Text ''12''],
              [Int64 2, Text ''yesterday'', Int64 4],
              [Int64 3, Text ''2024-01-02'', Text ''many'']]\<rparr>"

text \<open>
  A table in which two headers, \<open>Likes\<close> and \<open>likes\<close>, normalise to the same name; its
  one date is well-formed.
\<close>

definition dup_likes_table :: raw_table where
  "dup_likes_table =
     \<lparr>columns = [''post_id'', ''post_date'', ''Likes'', ''likes''],
      data = [[Int64 1, Text ''2024-01-01'', Int64 3, Int64 4]]\<rparr>"

text \<open>A table with equal engagement totals: 5, 7, 7, 5.\<close>

definition tie_table :: raw_table where
  "tie_table =
     \<lparr>columns = [''Post_ID'', ''Likes''],
      data = [[Text ''a'', Int64 5], [Text ''b'', Int64 7], [Text ''c'', Int64 7],
              [Text ''d'', Int64 5]]\<rparr>"

text \<open>
  The row that \<open>load_data\<close> makes of a table holding only an identifier and a number of
  likes, and the table it returns for \<open>tie_table\<close>.
\<close>

definition plain_post :: "nat \<Rightarrow> string \<Rightarrow> 64 word \<Rightarrow> post" where
  "plain_post i pid n =
     \<lparr>label = i, post_id = pid, post_date = None, day_of_week = None, day_of_week_num = None,
      likes = n, shares = 0, comments = 0, total_engagement_per_post = n,
      content_type = Text ''Unknown''\<rparr>"

definition tie_df :: dataframe where
  "tie_df =
     \<lparr>df_columns = [''post_id'', ''likes'', ''post_date'', ''day_of_week'', ''day_of_week_num'',
                    ''shares'', ''comments'', ''total_engagement_per_post'', ''content_type''],
      day_of_week_categorical = False,
      rows = [plain_post 0 ''a'' 5, plain_post 1 ''b'' 7, plain_post 2 ''c'' 7,
              plain_post 3 ''d'' 5]\<rparr>"

text \<open>Controls: everything at its default, and the date filter on 2024-01-01 alone.\<close>

definition default_controls :: controls where
  "default_controls = \<lparr>multiselect = [Text ''All''], checkbox = False, slider = (738886, 738887)\<rparr>"


section \<open>Properties\<close>

subsection \<open>Schema normaliser\<close>

lemma schema_normalizer_cases:
  "schema_normalizer t =
     (if ''post_id'' \<in> set (map normalize_col (columns t))
      then Inr (t\<lparr>columns := map normalize_col (columns t)\<rparr>)
      else Inl (St_error msg_post_id))"
  by (simp add: schema_normalizer_def Let_def)

lemma load_error_not_post_id: "msg_load @ m \<noteq> msg_post_id"
  by (simp add: msg_load_def msg_post_id_def)

lemma msg_post_id_names_column: "sublist ''Post_ID'' msg_post_id"
  unfolding sublist_def msg_post_id_def
  by (rule exI [of _ "''Error: The column '' @ [CHR 0x27]"]) simp

lemma coerce_no_errors: "St_error m \<notin> set (fst (coerce pd t))"
proof -
  have loop: "St_error m \<notin> set (fst (engagement_loop cols cs))" for cols cs
    by (induction cs) (auto split: prod.splits)
  have date: "St_error m \<notin> set (fst (date_stage pd cols rs))" for cols rs
    by (simp add: date_stage_def Let_def)
  show ?thesis
    using loop [of "columns t" engagement_cols] date [of "columns t" "data t"]
    by (auto simp: coerce_def Let_def split: prod.splits sum.splits option.splits)
qed

text \<open>
  C1. When no normalised column name is \<open>post_id\<close>, \<open>load_data\<close> returns the empty
  DataFrame and shows exactly one message, the error that names the column \<open>Post_ID\<close>;
  the result does not depend on the parsers or on the rows, so no later stage has run.
  When some normalised column name is \<open>post_id\<close>, the normaliser does not stop: it
  returns the renamed table, and the missing-column error is not among the messages.
\<close>

theorem load_data_post_id_check:
  "(''post_id'' \<notin> set (map normalize_col (columns t)) \<longrightarrow>
      load_data pd t = (pd_DataFrame, [St_error msg_post_id]) \<and>
      sublist ''Post_ID'' msg_post_id) \<and>
   (''post_id'' \<in> set (map normalize_col (columns t)) \<longrightarrow>
      schema_normalizer t = Inr (t\<lparr>columns := map normalize_col (columns t)\<rparr>) \<and>
      St_error msg_post_id \<notin> set (snd (load_data pd t)))"
proof (intro conjI impI)
  assume absent: "''post_id'' \<notin> set (map normalize_col (columns t))"
  then show "load_data pd t = (pd_DataFrame, [St_error msg_post_id])"
    by (simp add: load_data_def schema_normalizer_cases)
  show "sublist ''Post_ID'' msg_post_id"
    by (rule msg_post_id_names_column)
next
  assume present: "''post_id'' \<in> set (map normalize_col (columns t))"
  then show "schema_normalizer t = Inr (t\<lparr>columns := map normalize_col (columns t)\<rparr>)"
    by (simp add: schema_normalizer_cases)
  let ?t = "t\<lparr>columns := map normalize_col (columns t)\<rparr>"
  have "St_error msg_post_id \<notin> set (fst (coerce pd ?t))"
    by (rule coerce_no_errors)
  with present show "St_error msg_post_id \<notin> set (snd (load_data pd t))"
    using load_error_not_post_id [symmetric]
    by (auto simp: load_data_def schema_normalizer_cases split: prod.splits sum.splits)
qed

theorem load_data_post_id_check_witness:
  "load_data iso_pandas \<lparr>columns = [''Post Date'', ''Likes''], data = [[Text ''2024-01-01'', Int64 3]]\<rparr>
     = (pd_DataFrame, [St_error msg_post_id]) \<and>
   schema_normalizer example_table = Inr example_table \<and>
   St_error msg_post_id \<notin> set (snd (load_data iso_pandas example_table))"
proof -
  let ?t = "\<lparr>columns = [''Post Date'', ''Likes''], data = [[Text ''2024-01-01'', Int64 3]]\<rparr>"
  have a: "''post_id'' \<notin> set (map normalize_col (columns ?t))"
    by (simp add: normalize_col_def strip_def drop_leading.simps whitespace_def replace_char_def lower_def lower_char_def)
  have cols: "map normalize_col (columns example_table) = columns example_table"
    by (simp add: example_table_def normalize_col_def strip_def drop_leading.simps whitespace_def replace_char_def
        lower_def lower_char_def)
  have b: "''post_id'' \<in> set (map normalize_col (columns example_table))"
    unfolding cols by (simp add: example_table_def)
  show ?thesis
    using load_data_post_id_check [of ?t iso_pandas] load_data_post_id_check [of example_table iso_pandas]
      a b cols
    by simp
qed

lemma replace_char_absent: "old \<notin> set s \<Longrightarrow> replace_char old new s = s"
  by (induction s) (auto simp: replace_char_def)

lemma set_drop_leading: "set (drop_leading ws s) \<subseteq> set s"
proof (induction ws s rule: drop_leading.induct)
  case (1 ws s)
  show ?case
  proof (cases "find (\<lambda>w. w \<noteq> [] \<and> prefix w s) ws")
    case None
    then show ?thesis by (simp add: drop_leading.simps [of ws s])
  next
    case (Some w)
    from "1.IH" [OF Some] have "set (drop_leading ws (drop (length w) s)) \<subseteq> set (drop (length w) s)" .
    also have "\<dots> \<subseteq> set s" by (rule set_drop_subset)
    finally show ?thesis using Some by (simp add: drop_leading.simps [of ws s])
  qed
qed

lemma set_strip: "set (strip s) \<subseteq> set s"
proof -
  have "set (strip s) \<subseteq> set (rev (drop_leading whitespace s))"
    unfolding strip_def set_rev [of "drop_leading (map rev whitespace) (rev (drop_leading whitespace s))"]
    by (rule set_drop_leading)
  also have "\<dots> = set (drop_leading whitespace s)"
    by (rule set_rev)
  also have "\<dots> \<subseteq> set s"
    by (rule set_drop_leading)
  finally show ?thesis .
qed

text \<open>A header that starts with a no-break space (U+00A0) is trimmed as Python trims it.\<close>

lemma normalize_col_no_break_space:
  "normalize_col (CHR 0xC2 # CHR 0xA0 # ''Post_ID'') = ''post_id''"
  by (simp add: normalize_col_def strip_def drop_leading.simps whitespace_def replace_char_def
      lower_def lower_char_def)

lemma set_replace_space:
  "CHR ''.'' \<notin> set s \<Longrightarrow> CHR ''.'' \<notin> set (replace_char (CHR '' '') ''_'' s)"
  by (induction s) (auto simp: replace_char_def)

lemma normalize_col_without_dots:
  assumes "CHR ''.'' \<notin> set col"
  shows "normalize_col col = spec_normalize_col col"
proof -
  from assms set_strip [of col] have "CHR ''.'' \<notin> set (strip col)"
    by blast
  then have d: "CHR ''.'' \<notin> set (replace_char (CHR '' '') ''_'' (strip col))"
    by (rule set_replace_space)
  show ?thesis
    unfolding normalize_col_def spec_normalize_col_def
    by (simp only: replace_char_absent [OF d])
qed

text \<open>
  C2. The code trims, replaces each space with an underscore and lower-cases, but it
  deletes each dot where its own comment (line 22) and the specification have the dot
  replaced with an underscore: \<open>Post.ID\<close> becomes \<open>postid\<close>, not \<open>post_id\<close>, and a
  table whose identifier column is headed \<open>Post.ID\<close> is turned away as lacking the
  column. (On names without a dot the two transforms agree, lemma
  \<open>normalize_col_without_dots\<close>.)
\<close>

theorem normalize_col_deletes_dots:
  "normalize_col ''Post.ID'' = ''postid'' \<and> spec_normalize_col ''Post.ID'' = ''post_id'' \<and>
   load_data pd \<lparr>columns = [''Post.ID''], data = rs\<rparr> = (pd_DataFrame, [St_error msg_post_id])"
  by (simp add: load_data_def schema_normalizer_cases normalize_col_def spec_normalize_col_def
      strip_def drop_leading.simps whitespace_def replace_char_def lower_def lower_char_def)

subsection \<open>The shape of what load_data returns\<close>

lemmas string_defs =
  normalize_col_def strip_def drop_leading.simps whitespace_def replace_char_def lower_def lower_char_def

lemmas date_defs =
  iso_date_def digit_of_def ymd2ord_def days_before_year_def days_before_month_def
  days_in_month_def is_leap_def

lemmas load_defs =
  load_data_def schema_normalizer_cases coerce_def date_stage_def engagement_cols_def
  column_of_def make_post_def engagement_def pd_to_numeric_def result_columns_def
  set_column_def day_name_def dayofweek_def day_order_def str_int_def digits.simps upt_rec

lemma iso_date_first: "iso_date ''2024-01-01'' = Some (Timestamp 738886 0)"
  by (simp add: date_defs)

lemma iso_date_second: "iso_date ''2024-01-02'' = Some (Timestamp 738887 0)"
  by (simp add: date_defs)

lemma example_loaded: "load_data iso_pandas example_table = (example_df, [])"
  by (simp add: load_defs example_table_def example_df_def string_defs iso_pandas_def
      iso_date_first iso_date_second)

lemma make_post_sel:
  "label (make_post pd cols (i, row, d)) = i"
  "post_date (make_post pd cols (i, row, d)) = d"
  "day_of_week (make_post pd cols (i, row, d)) = map_option day_name d"
  "likes (make_post pd cols (i, row, d)) = engagement pd cols ''likes'' row"
  "shares (make_post pd cols (i, row, d)) = engagement pd cols ''shares'' row"
  "comments (make_post pd cols (i, row, d)) = engagement pd cols ''comments'' row"
  "total_engagement_per_post (make_post pd cols (i, row, d)) =
     engagement pd cols ''likes'' row + engagement pd cols ''shares'' row
       + engagement pd cols ''comments'' row"
  by (simp_all add: make_post_def Let_def)

lemma date_stage_kept:
  assumes "date_stage pd cols rs = (ds, Inr kept)"
  shows "kept = map (\<lambda>i. (i, rs ! i, if ''post_date'' \<in> set cols then parsed_date pd cols rs i else None))
                  (filter (\<lambda>i. ''post_date'' \<in> set cols \<longrightarrow> parsed_date pd cols rs i \<noteq> None)
                     [0..<length rs])"
proof (cases "''post_date'' \<in> set cols")
  case False
  have z: "zip [0..<length rs] rs = map (\<lambda>i. (i, rs ! i)) [0..<length rs]"
    by (rule nth_equalityI) auto
  from assms False have "kept = map (\<lambda>(i, r). (i, r, None)) (zip [0..<length rs] rs)"
    by (simp add: date_stage_def)
  with False show ?thesis
    unfolding z by (simp add: comp_def)
next
  case True
  let ?col = "map (column_of cols ''post_date'') rs"
  let ?parsed = "map (to_datetime pd ?col) ?col"
  have z: "zip [0..<length rs] (zip rs ?parsed)
             = map (\<lambda>i. (i, rs ! i, parsed_date pd cols rs i)) [0..<length rs]"
    by (rule nth_equalityI) (auto simp: parsed_date_def)
  from assms True have "kept = filter (\<lambda>(i, r, d). d \<noteq> None) (zip [0..<length rs] (zip rs ?parsed))"
    by (simp add: date_stage_def Let_def split: if_splits)
  with True show ?thesis
    unfolding z by (simp add: filter_map comp_def)
qed

lemma set_set_column: "set (set_column name cols) = insert name (set cols)"
  by (auto simp: set_column_def)

lemma set_foldl_set_column:
  "set (foldl (\<lambda>cs name. set_column name cs) cols names) = set cols \<union> set names"
  by (induction names arbitrary: cols) (auto simp: set_set_column)

lemma set_result_columns:
  "set (result_columns cols) =
     set cols \<union> set [''post_date'', ''day_of_week'', ''day_of_week_num'', ''likes'', ''shares'',
       ''comments'', ''total_engagement_per_post'', ''content_type'']"
  unfolding result_columns_def by (rule set_foldl_set_column)

lemma coerce_table:
  assumes "coerce pd t = (ds, Inr df)"
  shows "\<exists>ds1 kept. date_stage pd (columns t) (data t) = (ds1, Inr kept) \<and>
           df = \<lparr>df_columns = result_columns (columns t),
                 day_of_week_categorical = (''post_date'' \<in> set (columns t)),
                 rows = map (make_post pd (columns t)) kept\<rparr>"
proof -
  obtain ds1 x where d: "date_stage pd (columns t) (data t) = (ds1, x)"
    by (cases "date_stage pd (columns t) (data t)")
  obtain ds2 y where e: "engagement_loop (columns t) engagement_cols = (ds2, y)"
    by (cases "engagement_loop (columns t) engagement_cols")
  show ?thesis
  proof (cases x)
    case (Inl a)
    with assms d show ?thesis by (simp add: coerce_def)
  next
    case (Inr kept)
    show ?thesis
    proof (cases y)
      case None
      with assms d e Inr show ?thesis by (auto simp: coerce_def Let_def)
    next
      case (Some a)
      with assms d e Inr show ?thesis by (simp add: coerce_def)
    qed
  qed
qed

text \<open>
  \<open>load_data\<close> returns either \<open>pd.DataFrame()\<close>, on its two error paths, or the coerced
  table; the two are told apart by the column labels.
\<close>

lemma load_data_cases:
  "fst (load_data pd t) = pd_DataFrame \<and> (\<exists>m. St_error m \<in> set (snd (load_data pd t))) \<or>
   (\<exists>ds kept. date_stage pd (map normalize_col (columns t)) (data t) = (ds, Inr kept) \<and>
      fst (load_data pd t) =
        \<lparr>df_columns = result_columns (map normalize_col (columns t)),
         day_of_week_categorical = (''post_date'' \<in> set (map normalize_col (columns t))),
         rows = map (make_post pd (map normalize_col (columns t))) kept\<rparr>)"
proof (cases "''post_id'' \<in> set (map normalize_col (columns t))")
  case False
  then show ?thesis
    by (simp add: load_data_def schema_normalizer_cases)
next
  case True
  let ?t = "t\<lparr>columns := map normalize_col (columns t)\<rparr>"
  obtain ds x where c: "coerce pd ?t = (ds, x)"
    by (cases "coerce pd ?t")
  show ?thesis
  proof (cases x)
    case (Inl e)
    with True c show ?thesis
      by (auto simp: load_data_def schema_normalizer_cases)
  next
    case (Inr df)
    with True c have "fst (load_data pd t) = df"
      by (simp add: load_data_def schema_normalizer_cases)
    with coerce_table [of pd ?t ds df] c Inr show ?thesis by simp
  qed
qed

lemma likes_in_result_columns: "result_columns cols \<noteq> []"
proof -
  have "''likes'' \<in> set (result_columns cols)"
    by (simp add: set_result_columns)
  then show ?thesis by auto
qed

lemma load_data_table:
  assumes "fst (load_data pd t) \<noteq> pd_DataFrame"
  shows "\<exists>ds kept. date_stage pd (map normalize_col (columns t)) (data t) = (ds, Inr kept) \<and>
           fst (load_data pd t) =
             \<lparr>df_columns = result_columns (map normalize_col (columns t)),
              day_of_week_categorical = (''post_date'' \<in> set (map normalize_col (columns t))),
              rows = map (make_post pd (map normalize_col (columns t))) kept\<rparr>"
  using load_data_cases [of pd t] assms by blast

lemma load_data_rows:
  assumes "fst (load_data pd t) \<noteq> pd_DataFrame"
  shows "rows (fst (load_data pd t)) =
           map (\<lambda>i. make_post pd (map normalize_col (columns t))
                      (i, data t ! i,
                       if ''post_date'' \<in> set (map normalize_col (columns t))
                       then parsed_date pd (map normalize_col (columns t)) (data t) i else None))
               (filter (\<lambda>i. ''post_date'' \<in> set (map normalize_col (columns t)) \<longrightarrow>
                              parsed_date pd (map normalize_col (columns t)) (data t) i \<noteq> None)
                  [0..<length (data t)])"
proof -
  from load_data_table [OF assms] obtain ds kept
    where d: "date_stage pd (map normalize_col (columns t)) (data t) = (ds, Inr kept)"
      and l: "rows (fst (load_data pd t)) = map (make_post pd (map normalize_col (columns t))) kept"
    by auto
  show ?thesis
    unfolding l date_stage_kept [OF d] by (simp add: comp_def)
qed

lemma load_data_columns:
  assumes "fst (load_data pd t) \<noteq> pd_DataFrame"
  shows "df_columns (fst (load_data pd t)) = result_columns (map normalize_col (columns t))"
    and "day_of_week_categorical (fst (load_data pd t))
           = (''post_date'' \<in> set (map normalize_col (columns t)))"
    and "''post_id'' \<in> set (map normalize_col (columns t))"
proof -
  from load_data_table [OF assms]
  show "df_columns (fst (load_data pd t)) = result_columns (map normalize_col (columns t))"
    and "day_of_week_categorical (fst (load_data pd t))
           = (''post_date'' \<in> set (map normalize_col (columns t)))"
    by auto
  from assms show "''post_id'' \<in> set (map normalize_col (columns t))"
    by (auto simp: load_data_def schema_normalizer_cases split: if_splits)
qed

lemma rows_not_DataFrame: "rows df \<noteq> [] \<Longrightarrow> df \<noteq> pd_DataFrame"
  by (auto simp: pd_DataFrame_def)

lemma load_data_row:
  assumes "r \<in> set (rows (fst (load_data pd t)))"
  shows "label r < length (data t) \<and>
         r = make_post pd (map normalize_col (columns t)) (label r, data t ! label r, post_date r) \<and>
         post_date r = (if ''post_date'' \<in> set (map normalize_col (columns t))
                        then parsed_date pd (map normalize_col (columns t)) (data t) (label r) else None) \<and>
         (''post_date'' \<in> set (map normalize_col (columns t)) \<longrightarrow> post_date r \<noteq> None)"
proof -
  from assms have "rows (fst (load_data pd t)) \<noteq> []" by auto
  then have c: "fst (load_data pd t) \<noteq> pd_DataFrame"
    by (rule rows_not_DataFrame)
  from assms show ?thesis
    unfolding load_data_rows [OF c] by (auto simp: make_post_sel)
qed

lemma load_data_labels: "distinct (map label (rows (fst (load_data pd t))))"
proof (cases "fst (load_data pd t) = pd_DataFrame")
  case True
  then show ?thesis by (simp add: pd_DataFrame_def)
next
  case False
  show ?thesis
    unfolding load_data_rows [OF False] by (simp add: comp_def make_post_sel distinct_map_filter)
qed

lemma load_data_no_error:
  assumes "\<forall>m. St_error m \<notin> set (snd (load_data pd t))"
  shows "fst (load_data pd t) \<noteq> pd_DataFrame"
proof -
  from load_data_cases [of pd t] assms
  have "df_columns (fst (load_data pd t)) = result_columns (map normalize_col (columns t))"
    by auto
  with likes_in_result_columns [of "map normalize_col (columns t)"] show ?thesis
    by (auto simp: pd_DataFrame_def)
qed

subsection \<open>The sidebar keeps rows, labels and columns\<close>

lemma category_filter_rows:
  "\<exists>P. category_filter df sel = df\<lparr>rows := filter P (rows df)\<rparr>"
proof (cases "''content_type'' \<in> set (df_columns df) \<and> Text ''All'' \<notin> set sel")
  case True
  then show ?thesis by (auto simp: category_filter_def)
next
  case False
  then have "category_filter df sel = df\<lparr>rows := filter (\<lambda>r. True) (rows df)\<rparr>"
    by (auto simp: category_filter_def)
  then show ?thesis by blast
qed

lemma date_filter_rows:
  "\<exists>P. date_filter df en m rng = df\<lparr>rows := filter P (rows df)\<rparr>"
proof (cases "en \<and> m \<noteq> None")
  case True
  then show ?thesis by (auto simp: date_filter_def)
next
  case False
  then have "date_filter df en m rng = df\<lparr>rows := filter (\<lambda>r. True) (rows df)\<rparr>"
    by (auto simp: date_filter_def)
  then show ?thesis by blast
qed

lemma sidebar_rows:
  assumes "sidebar df ui = Inr df_filtered"
  shows "\<exists>P. df_filtered = df\<lparr>rows := filter P (rows df)\<rparr>"
proof -
  obtain en m where dc: "date_controls df ui = (en, m)"
    by (cases "date_controls df ui")
  let ?sel = "if ''content_type'' \<in> set (df_columns df) \<and> \<not> df_empty df
              then multiselect ui else [Text ''All'']"
  from assms dc have f: "df_filtered = date_filter (category_filter df ?sel) en m (slider ui)"
    by (cases "''content_type'' \<in> set (df_columns df) \<and> \<not> df_empty df")
       (auto simp: sidebar_def Let_def split: if_splits)
  obtain P where p: "category_filter df ?sel = df\<lparr>rows := filter P (rows df)\<rparr>"
    using category_filter_rows by blast
  obtain Q where q: "date_filter (category_filter df ?sel) en m (slider ui)
      = (category_filter df ?sel)\<lparr>rows := filter Q (rows (category_filter df ?sel))\<rparr>"
    using date_filter_rows by blast
  have "df_filtered = df\<lparr>rows := filter (\<lambda>r. P r \<and> Q r) (rows df)\<rparr>"
    unfolding f q unfolding p by (simp add: conj_commute)
  then show ?thesis by blast
qed

lemma sidebar_subset:
  assumes "sidebar df ui = Inr df_filtered"
  shows "set (rows df_filtered) \<subseteq> set (rows df)"
    and "df_columns df_filtered = df_columns df"
    and "day_of_week_categorical df_filtered = day_of_week_categorical df"
    and "distinct (map label (rows df)) \<Longrightarrow> distinct (map label (rows df_filtered))"
proof -
  from sidebar_rows [OF assms] obtain P where p: "df_filtered = df\<lparr>rows := filter P (rows df)\<rparr>"
    by blast
  show "set (rows df_filtered) \<subseteq> set (rows df)"
    and "df_columns df_filtered = df_columns df"
    and "day_of_week_categorical df_filtered = day_of_week_categorical df"
    and "distinct (map label (rows df)) \<Longrightarrow> distinct (map label (rows df_filtered))"
    unfolding p by (auto simp: distinct_map_filter)
qed

lemma example_sidebar_default: "sidebar example_df default_controls = Inr example_df"
  by (simp add: sidebar_def example_df_def default_controls_def df_empty_def date_controls_def
      category_filter_def date_filter_def)

lemma sint_add3:
  fixes a b c :: "64 word"
  assumes "- (2 ^ 63) \<le> sint a + sint b + sint c" and "sint a + sint b + sint c < 2 ^ 63"
  shows "sint (a + b + c) = sint a + sint b + sint c"
proof -
  have "a + b + c = word_of_int (sint a + sint b + sint c)"
    by simp
  then have "sint (a + b + c) = signed_take_bit 63 (sint a + sint b + sint c)"
    by (simp only: sint_sbintrunc') simp
  also have "\<dots> = sint a + sint b + sint c"
    using assms by (simp add: signed_take_bit_int_eq_self)
  finally show ?thesis .
qed

subsection \<open>Field coercer\<close>

text \<open>
  C3. In every row of the table that \<open>load_data\<close> returns, and in every row of every
  filtered table the sidebar derives from it, \<open>total_engagement_per_post\<close> is
  \<open>likes + shares + comments\<close> of that row, in the int64 arithmetic of the columns; as
  integers the equation holds whenever the sum fits in 64 bits. The total is computed
  from the three coerced columns, whatever the input table holds.
\<close>

theorem total_engagement_invariant:
  "(\<forall>r \<in> set (rows (fst (load_data pd t))).
      total_engagement_per_post r = likes r + shares r + comments r \<and>
      (- (2 ^ 63) \<le> sint (likes r) + sint (shares r) + sint (comments r) \<and>
       sint (likes r) + sint (shares r) + sint (comments r) < 2 ^ 63 \<longrightarrow>
         sint (total_engagement_per_post r) = sint (likes r) + sint (shares r) + sint (comments r))) \<and>
   (\<forall>df_filtered. sidebar (fst (load_data pd t)) ui = Inr df_filtered \<longrightarrow>
      (\<forall>r \<in> set (rows df_filtered).
         total_engagement_per_post r = likes r + shares r + comments r))"
proof -
  have eq: "total_engagement_per_post r = likes r + shares r + comments r"
    if "r \<in> set (rows (fst (load_data pd t)))" for r
  proof -
    from load_data_row [OF that] obtain i row d
      where "r = make_post pd (map normalize_col (columns t)) (i, row, d)"
      by blast
    then show ?thesis by (simp add: make_post_sel)
  qed
  have int: "sint (total_engagement_per_post r) = sint (likes r) + sint (shares r) + sint (comments r)"
    if "r \<in> set (rows (fst (load_data pd t)))"
      and "- (2 ^ 63) \<le> sint (likes r) + sint (shares r) + sint (comments r)"
      and "sint (likes r) + sint (shares r) + sint (comments r) < 2 ^ 63" for r
    unfolding eq [OF that(1)] using that(2, 3) by (rule sint_add3)
  have flt: "total_engagement_per_post r = likes r + shares r + comments r"
    if "sidebar (fst (load_data pd t)) ui = Inr df_filtered" and "r \<in> set (rows df_filtered)"
    for df_filtered r
    using sidebar_subset(1) [OF that(1)] that(2) eq by blast
  from eq int flt show ?thesis by blast
qed

theorem total_engagement_invariant_witness:
  "rows (fst (load_data iso_pandas stale_total_table)) = [stale_total_post] \<and>
   total_engagement_per_post stale_total_post = 10 \<and>
   total_engagement_per_post stale_total_post
     = likes stale_total_post + shares stale_total_post + comments stale_total_post \<and>
   sint (total_engagement_per_post stale_total_post)
     = sint (likes stale_total_post) + sint (shares stale_total_post) + sint (comments stale_total_post) \<and>
   sidebar (fst (load_data iso_pandas example_table)) default_controls = Inr example_df \<and>
   map total_engagement_per_post (rows example_df) = [13, 15] \<and>
   map (\<lambda>r. likes r + shares r + comments r) (rows example_df) = [13, 15]"
proof -
  have l: "rows (fst (load_data iso_pandas stale_total_table)) = [stale_total_post]"
    by (simp add: load_defs stale_total_table_def stale_total_post_def string_defs iso_pandas_def)
  have s: "sidebar (fst (load_data iso_pandas example_table)) default_controls = Inr example_df"
    by (simp add: example_loaded example_sidebar_default)
  have r: "- (2 ^ 63) \<le> sint (likes stale_total_post) + sint (shares stale_total_post)
              + sint (comments stale_total_post) \<and>
           sint (likes stale_total_post) + sint (shares stale_total_post)
              + sint (comments stale_total_post) < 2 ^ 63"
    by (simp add: stale_total_post_def)
  have t: "total_engagement_per_post stale_total_post = 10"
    by (simp add: stale_total_post_def)
  have m: "stale_total_post \<in> set (rows (fst (load_data iso_pandas stale_total_table)))"
    unfolding l by simp
  from total_engagement_invariant [of iso_pandas stale_total_table default_controls] m r
  have a: "total_engagement_per_post stale_total_post
             = likes stale_total_post + shares stale_total_post + comments stale_total_post"
    and b: "sint (total_engagement_per_post stale_total_post)
             = sint (likes stale_total_post) + sint (shares stale_total_post)
               + sint (comments stale_total_post)"
    by blast+
  from total_engagement_invariant [of iso_pandas example_table default_controls] s
  have "\<forall>r \<in> set (rows example_df).
          total_engagement_per_post r = likes r + shares r + comments r"
    by blast
  then have c: "map (\<lambda>r. likes r + shares r + comments r) (rows example_df)
                  = map total_engagement_per_post (rows example_df)"
    by simp
  have d: "map total_engagement_per_post (rows example_df) = [13, 15]"
    by (simp add: example_df_def)
  from l t a b s c d show ?thesis by simp
qed

text \<open>
  C4, as stated, fails. Two headers that normalise to \<open>likes\<close> make \<open>pd.to_numeric\<close>
  raise on line 53; the \<open>except\<close> of line 67 then returns \<open>pd.DataFrame()\<close>, so the row is
  gone although the table has a \<open>post_date\<close> column and the row's date parses.
\<close>

theorem unparseable_dates_counterexample:
  "''post_date'' \<in> set (map normalize_col (columns dup_likes_table)) \<and>
   length (data dup_likes_table) = 1 \<and>
   parsed_date iso_pandas (map normalize_col (columns dup_likes_table)) (data dup_likes_table) 0
     = Some (Timestamp 738886 0) \<and>
   rows (fst (load_data iso_pandas dup_likes_table)) = [] \<and>
   snd (load_data iso_pandas dup_likes_table)
     = [St_error (msg_load @ ''arg must be a list, tuple, 1-d array, or Series'')]"
proof -
  have c: "map normalize_col (columns dup_likes_table) = [''post_id'', ''post_date'', ''likes'', ''likes'']"
    by (simp add: dup_likes_table_def string_defs)
  have p: "parsed_date iso_pandas [''post_id'', ''post_date'', ''likes'', ''likes'']
             (data dup_likes_table) 0 = Some (Timestamp 738886 0)"
    by (simp add: parsed_date_def dup_likes_table_def column_of_def iso_pandas_def iso_date_first)
  have l: "load_data iso_pandas dup_likes_table =
     (pd_DataFrame, [St_error (msg_load @ ''arg must be a list, tuple, 1-d array, or Series'')])"
    by (simp add: load_defs dup_likes_table_def string_defs iso_pandas_def iso_date_first)
  show ?thesis
    unfolding c l using p by (simp add: pd_DataFrame_def dup_likes_table_def)
qed

text \<open>
  C4, amended. When the table has a \<open>post_date\<close> column and \<open>load_data\<close> shows no error, the rows
  it returns are exactly the input rows whose \<open>post_date\<close> value parses, in their order
  and under their labels; each carries its parsed timestamp, and none carries \<open>NaT\<close>.
\<close>

theorem unparseable_dates_dropped:
  assumes "''post_date'' \<in> set (map normalize_col (columns t))"
    and "\<forall>m. St_error m \<notin> set (snd (load_data pd t))"
  shows "map label (rows (fst (load_data pd t))) =
           filter (\<lambda>i. parsed_date pd (map normalize_col (columns t)) (data t) i \<noteq> None)
             [0..<length (data t)] \<and>
         (\<forall>r \<in> set (rows (fst (load_data pd t))).
            post_date r = parsed_date pd (map normalize_col (columns t)) (data t) (label r) \<and>
            post_date r \<noteq> None)"
proof -
  from assms(2) have c: "fst (load_data pd t) \<noteq> pd_DataFrame"
    by (rule load_data_no_error)
  have "map label (rows (fst (load_data pd t))) =
          filter (\<lambda>i. parsed_date pd (map normalize_col (columns t)) (data t) i \<noteq> None)
             [0..<length (data t)]"
    unfolding load_data_rows [OF c] using assms(1) by (simp add: comp_def make_post_sel)
  moreover have "post_date r = parsed_date pd (map normalize_col (columns t)) (data t) (label r) \<and>
      post_date r \<noteq> None" if "r \<in> set (rows (fst (load_data pd t)))" for r
  proof -
    from load_data_row [OF that]
    have "post_date r = (if ''post_date'' \<in> set (map normalize_col (columns t))
            then parsed_date pd (map normalize_col (columns t)) (data t) (label r) else None)"
      and "''post_date'' \<in> set (map normalize_col (columns t)) \<longrightarrow> post_date r \<noteq> None"
      by blast+
    with assms(1) show ?thesis by simp
  qed
  ultimately show ?thesis by blast
qed

lemma iso_date_yesterday: "iso_date ''yesterday'' = None"
  by (simp add: iso_date_def)

lemma bad_date_loaded:
  "load_data iso_pandas bad_date_table =
   (\<lparr>df_columns = [''post_id'', ''post_date'', ''likes'', ''day_of_week'', ''day_of_week_num'',
                   ''shares'', ''comments'', ''total_engagement_per_post'', ''content_type''],
     day_of_week_categorical = True,
     rows = [\<lparr>label = 0, post_id = ''1'', post_date = Some (Timestamp 738886 0),
               day_of_week = Some Monday, day_of_week_num = Some 0,
               likes = 12, shares = 0, comments = 0, total_engagement_per_post = 12,
               content_type = Text ''Unknown''\<rparr>,
             \<lparr>label = 2, post_id = ''3'', post_date = Some (Timestamp 738887 0),
               day_of_week = Some Tuesday, day_of_week_num = Some 1,
               likes = 0, shares = 0, comments = 0, total_engagement_per_post = 0,
               content_type = Text ''Unknown''\<rparr>]\<rparr>,
    [St_warning (msg_engagement ''shares''), St_warning (msg_engagement ''comments''),
     St_warning msg_content_type])"
  by (simp add: load_defs bad_date_table_def string_defs iso_pandas_def
    iso_date_first iso_date_second iso_date_yesterday digit_of_def)

theorem unparseable_dates_dropped_witness:
  "''post_date'' \<in> set (map normalize_col (columns bad_date_table)) \<and>
   (\<forall>m. St_error m \<notin> set (snd (load_data iso_pandas bad_date_table))) \<and>
   map label (rows (fst (load_data iso_pandas bad_date_table))) =
     filter (\<lambda>i. parsed_date iso_pandas (map normalize_col (columns bad_date_table))
                   (data bad_date_table) i \<noteq> None)
       [0..<length (data bad_date_table)] \<and>
   map label (rows (fst (load_data iso_pandas bad_date_table))) = [0, 2] \<and>
   map post_id (rows (fst (load_data iso_pandas bad_date_table))) = [''1'', ''3''] \<and>
   map post_date (rows (fst (load_data iso_pandas bad_date_table)))
     = [Some (Timestamp 738886 0), Some (Timestamp 738887 0)]"
proof -
  have h1: "''post_date'' \<in> set (map normalize_col (columns bad_date_table))"
    by (simp add: bad_date_table_def string_defs)
  have h2: "\<forall>m. St_error m \<notin> set (snd (load_data iso_pandas bad_date_table))"
    unfolding bad_date_loaded by simp
  have c: "map label (rows (fst (load_data iso_pandas bad_date_table))) = [0, 2] \<and>
           map post_id (rows (fst (load_data iso_pandas bad_date_table))) = [''1'', ''3''] \<and>
           map post_date (rows (fst (load_data iso_pandas bad_date_table)))
             = [Some (Timestamp 738886 0), Some (Timestamp 738887 0)]"
    unfolding bad_date_loaded by simp
  from unparseable_dates_dropped [OF h1 h2]
  have t: "map label (rows (fst (load_data iso_pandas bad_date_table))) =
     filter (\<lambda>i. parsed_date iso_pandas (map normalize_col (columns bad_date_table))
                   (data bad_date_table) i \<noteq> None)
       [0..<length (data bad_date_table)]"
    by (rule conjunct1)
  show ?thesis
    by (rule conjI [OF h1 conjI [OF h2 conjI [OF t c]]])
qed

text \<open>
  C5, as stated, fails: a negative number in the input stays negative, since the
  coercion parses and fills but never clamps.
\<close>

theorem metrics_nonnegative_counterexample:
  "hd (rows (fst (load_data iso_pandas negative_likes_table)))
     \<in> set (rows (fst (load_data iso_pandas negative_likes_table))) \<and>
   sint (likes (hd (rows (fst (load_data iso_pandas negative_likes_table))))) = - 5 \<and>
   \<not> 0 \<le> sint (likes (hd (rows (fst (load_data iso_pandas negative_likes_table)))))"
proof -
  have l: "rows (fst (load_data iso_pandas negative_likes_table)) =
      [\<lparr>label = 0, post_id = ''7'', post_date = None, day_of_week = None, day_of_week_num = None,
        likes = - 5, shares = 0, comments = 0, total_engagement_per_post = - 5,
        content_type = Text ''Unknown''\<rparr>]"
    by (simp add: load_defs negative_likes_table_def string_defs iso_pandas_def)
  show ?thesis unfolding l by simp
qed

text \<open>
  C5, amended. In every row that \<open>load_data\<close> returns, each of \<open>likes\<close>, \<open>shares\<close> and
  \<open>comments\<close> is an int64 determined by the row's cell in that column: 0 when the column
  is absent, the number itself for a numeric cell (a negative number stays negative),
  the parsed number for a string that parses, and 0 for a missing value or a string
  that does not parse.
\<close>

theorem metrics_coerced:
  "\<forall>r \<in> set (rows (fst (load_data pd t))). \<forall>col \<in> set engagement_cols.
     (col \<notin> set (map normalize_col (columns t)) \<longrightarrow> metric col r = 0) \<and>
     (col \<in> set (map normalize_col (columns t)) \<longrightarrow>
        (case column_of (map normalize_col (columns t)) col (data t ! label r) of
           Int64 n \<Rightarrow> metric col r = n
         | Text s \<Rightarrow> metric col r = (case to_numeric pd s of Some n \<Rightarrow> n | None \<Rightarrow> 0)
         | NaN \<Rightarrow> metric col r = 0))"
proof (intro ballI)
  fix r col
  assume r: "r \<in> set (rows (fst (load_data pd t)))" and col: "col \<in> set engagement_cols"
  let ?cols = "map normalize_col (columns t)"
  let ?row = "data t ! label r"
  from load_data_row [OF r] have "r = make_post pd ?cols (label r, ?row, post_date r)"
    by blast
  then have "likes r = engagement pd ?cols ''likes'' ?row"
    and "shares r = engagement pd ?cols ''shares'' ?row"
    and "comments r = engagement pd ?cols ''comments'' ?row"
    by (metis make_post_sel(4), metis make_post_sel(5), metis make_post_sel(6))
  with col have m: "metric col r = engagement pd ?cols col ?row"
    by (auto simp: metric_def engagement_cols_def)
  show "(col \<notin> set ?cols \<longrightarrow> metric col r = 0) \<and>
     (col \<in> set ?cols \<longrightarrow>
        (case column_of ?cols col ?row of
           Int64 n \<Rightarrow> metric col r = n
         | Text s \<Rightarrow> metric col r = (case to_numeric pd s of Some n \<Rightarrow> n | None \<Rightarrow> 0)
         | NaN \<Rightarrow> metric col r = 0))"
    unfolding m by (simp add: engagement_def pd_to_numeric_def split: cell.splits)
qed

theorem metrics_coerced_witness:
  "map (metric ''likes'') (rows (fst (load_data iso_pandas bad_date_table))) = [12, 0] \<and>
   map (metric ''shares'') (rows (fst (load_data iso_pandas bad_date_table))) = [0, 0] \<and>
   ''likes'' \<in> set (map normalize_col (columns bad_date_table)) \<and>
   ''shares'' \<notin> set (map normalize_col (columns bad_date_table)) \<and>
   column_of (map normalize_col (columns bad_date_table)) ''likes'' (data bad_date_table ! 0)
     = Text ''12'' \<and>
   to_numeric iso_pandas ''12'' = Some 12 \<and>
   column_of (map normalize_col (columns bad_date_table)) ''likes'' (data bad_date_table ! 2)
     = Text ''many'' \<and>
   to_numeric iso_pandas ''many'' = None"
proof -
  have a: "map normalize_col (columns bad_date_table) = [''post_id'', ''post_date'', ''likes'']"
    by (simp add: bad_date_table_def string_defs)
  have e: "''likes'' \<in> set engagement_cols" "''shares'' \<in> set engagement_cols"
    by (simp_all add: engagement_cols_def)
  have c: "column_of [''post_id'', ''post_date'', ''likes''] ''likes'' (data bad_date_table ! 0)
             = Text ''12''"
       "column_of [''post_id'', ''post_date'', ''likes''] ''likes'' (data bad_date_table ! 2)
             = Text ''many''"
    by (simp_all add: column_of_def bad_date_table_def)
  have n: "to_numeric iso_pandas ''12'' = Some 12" "to_numeric iso_pandas ''many'' = None"
    by (simp_all add: iso_pandas_def digit_of_def)
  have r: "map label (rows (fst (load_data iso_pandas bad_date_table))) = [0, 2]"
    unfolding bad_date_loaded by simp
  then obtain r0 r2 where rs: "rows (fst (load_data iso_pandas bad_date_table)) = [r0, r2]"
    and l: "label r0 = 0" "label r2 = 2"
    by auto
  from metrics_coerced [of iso_pandas bad_date_table] e
  have "metric ''likes'' r0 = 12" "metric ''likes'' r2 = 0"
       "metric ''shares'' r0 = 0" "metric ''shares'' r2 = 0"
    unfolding a rs by (simp_all add: l c n)
  with a c n show ?thesis
    unfolding rs by simp
qed

subsection \<open>Filter engine\<close>

text \<open>
  C6. With \<open>"All"\<close> among the selected content types the category filter of lines 124
  and 125 returns the table it is given, rows and all.
\<close>

theorem category_filter_all:
  "Text ''All'' \<in> set selected_post_types \<Longrightarrow> category_filter df selected_post_types = df"
  by (simp add: category_filter_def)

theorem category_filter_all_witness:
  "Text ''All'' \<in> set [Text ''Video'', Text ''All''] \<and>
   category_filter example_df [Text ''Video'', Text ''All''] = example_df \<and>
   rows (category_filter example_df [Text ''Video'']) \<noteq> rows example_df"
proof -
  have h: "Text ''All'' \<in> set [Text ''Video'', Text ''All'']" by simp
  have "rows (category_filter example_df [Text ''Video'']) \<noteq> rows example_df"
    by (simp add: category_filter_def example_df_def)
  with category_filter_all [OF h, of example_df] h show ?thesis by blast
qed







subsection \<open>Views\<close>

lemma nlargest_length: "length (nlargest n rs) = min n (length rs)"
  by (simp add: nlargest_def min.commute)

lemma nlargest_subset: "set (nlargest n rs) \<subseteq> set rs"
  unfolding nlargest_def using set_take_subset [of n "sort_key (\<lambda>r. - sint (total_engagement_per_post r)) rs"]
  by simp

lemma nlargest_descending:
  "sorted_wrt (\<lambda>a b. sint (total_engagement_per_post b) \<le> sint (total_engagement_per_post a))
     (nlargest n rs)"
proof -
  let ?f = "\<lambda>r. - sint (total_engagement_per_post r)"
  have "sorted (map ?f (sort_key ?f rs))"
    by (rule sorted_sort_key)
  then have "sorted (take n (map ?f (sort_key ?f rs)))"
    by (rule sorted_wrt_take)
  then have "sorted (map ?f (nlargest n rs))"
    by (simp add: nlargest_def take_map)
  then show ?thesis
    by (simp add: sorted_map)
qed

lemma nlargest_stable:
  "prefix (filter (\<lambda>r. total_engagement_per_post r = k) (nlargest n rs))
          (filter (\<lambda>r. total_engagement_per_post r = k) rs)"
proof -
  let ?f = "\<lambda>r. - sint (total_engagement_per_post r)"
  have eq: "(\<lambda>r. total_engagement_per_post r = k) = (\<lambda>r. ?f r = - sint k)"
    by (rule ext) (auto intro: signed_word_eqI)
  have "prefix (filter (\<lambda>r. ?f r = - sint k) (take n (sort_key ?f rs)))
               (filter (\<lambda>r. ?f r = - sint k) (sort_key ?f rs))"
    by (rule filter_mono_prefix) (rule take_is_prefix)
  then show ?thesis
    unfolding eq nlargest_def by (simp only: sort_key_stable)
qed

lemma nlargest_top:
  assumes "a \<in> set (nlargest n rs)" and "b \<in> set rs"
    and "sint (total_engagement_per_post a) < sint (total_engagement_per_post b)"
  shows "b \<in> set (nlargest n rs)"
proof (rule ccontr)
  let ?f = "\<lambda>r. - sint (total_engagement_per_post r)"
  let ?s = "sort_key ?f rs"
  assume "b \<notin> set (nlargest n rs)"
  moreover have "set rs = set (take n ?s) \<union> set (drop n ?s)"
    by (metis append_take_drop_id set_append set_sort)
  ultimately have b: "b \<in> set (drop n ?s)"
    using assms(2) by (auto simp: nlargest_def)
  have "sorted (map ?f (take n ?s @ drop n ?s))"
    by (metis append_take_drop_id sorted_sort_key)
  then have "\<forall>x \<in> set (take n ?s). \<forall>y \<in> set (drop n ?s). ?f x \<le> ?f y"
    unfolding map_append sorted_append by auto
  with assms(1) b have "?f a \<le> ?f b"
    by (auto simp: nlargest_def)
  with assms(3) show False by simp
qed

lemma split_head_le:
  fixes v :: "'a \<Rightarrow> int"
  assumes "x # xs = bf @ m # af" and "\<forall>y \<in> set bf. v y < v m"
  shows "v x \<le> v m"
proof (cases bf)
  case Nil
  with assms(1) have "x = m" by simp
  then show ?thesis by simp
next
  case (Cons y ys)
  with assms(1) have "x \<in> set bf" by simp
  with assms(2) show ?thesis by force
qed

lemma argmax_first_split:
  "\<exists>before after. b # rs = before @ argmax_first b rs # after \<and>
     (\<forall>x \<in> set before. sint (total_engagement_per_post x)
                          < sint (total_engagement_per_post (argmax_first b rs))) \<and>
     (\<forall>x \<in> set after. sint (total_engagement_per_post x)
                         \<le> sint (total_engagement_per_post (argmax_first b rs)))"
proof (induction rs arbitrary: b)
  case Nil
  have "[b] = [] @ argmax_first b [] # []" by simp
  then show ?case by fastforce
next
  case (Cons r rs)
  let ?v = "\<lambda>x. sint (total_engagement_per_post x)"
  show ?case
  proof (cases "?v b < ?v r")
    case True
    define m where "m = argmax_first r rs"
    from True have am: "argmax_first b (r # rs) = m"
      by (simp add: m_def)
    from Cons.IH [of r] obtain bf af
      where split: "r # rs = bf @ m # af"
        and lt: "\<forall>x \<in> set bf. ?v x < ?v m"
        and le: "\<forall>x \<in> set af. ?v x \<le> ?v m"
      unfolding m_def by blast
    from split lt have "?v r \<le> ?v m"
      by (rule split_head_le)
    with True lt have "\<forall>x \<in> set (b # bf). ?v x < ?v m"
      by auto
    moreover from split have "b # r # rs = (b # bf) @ m # af"
      by simp
    ultimately show ?thesis
      unfolding am using le by blast
  next
    case False
    define m where "m = argmax_first b rs"
    from False have am: "argmax_first b (r # rs) = m"
      by (simp add: m_def)
    from Cons.IH [of b] obtain bf af
      where split: "b # rs = bf @ m # af"
        and lt: "\<forall>x \<in> set bf. ?v x < ?v m"
        and le: "\<forall>x \<in> set af. ?v x \<le> ?v m"
      unfolding m_def by blast
    show ?thesis
    proof (cases bf)
      case Nil
      with split have bm: "b = m" and af: "af = rs"
        by simp_all
      from False le have "\<forall>x \<in> set (r # rs). ?v x \<le> ?v m"
        unfolding af bm [symmetric] by auto
      moreover have "b # r # rs = [] @ m # (r # rs)"
        unfolding bm by simp
      moreover have "\<forall>x \<in> set ([] :: post list). ?v x < ?v m"
        by simp
      ultimately show ?thesis
        unfolding am by blast
    next
      case (Cons y ys)
      with split have y: "y = b" and rs: "rs = ys @ m # af"
        by simp_all
      from lt Cons y have "?v b < ?v m"
        by simp
      with False lt Cons have "\<forall>x \<in> set (b # r # ys). ?v x < ?v m"
        by auto
      moreover from rs have "b # r # rs = (b # r # ys) @ m # af"
        by simp
      ultimately show ?thesis
        unfolding am using le by blast
    qed
  qed
qed

lemma filter_key_unique:
  assumes "distinct (map f (bf @ m # af))"
  shows "filter (\<lambda>x. f x = f m) (bf @ m # af) = [m]"
proof -
  from assms have a: "f m \<notin> f ` set bf" and b: "f m \<notin> f ` set af"
    by auto
  from a have "filter (\<lambda>x. f x = f m) bf = []"
    unfolding filter_empty_conv by (metis imageI)
  moreover from b have "filter (\<lambda>x. f x = f m) af = []"
    unfolding filter_empty_conv by (metis imageI)
  ultimately show ?thesis by simp
qed

lemma loc_unique:
  assumes "distinct (map label rs)" and "rs = before @ m # after"
  shows "loc rs (label m) = Some m"
proof -
  from assms have "filter (\<lambda>r. label r = label m) rs = [m]"
    using filter_key_unique [of label before m after] by simp
  then show ?thesis by (simp add: loc_def)
qed

lemma tie_loaded: "fst (load_data iso_pandas tie_table) = tie_df"
  by (simp add: load_defs tie_table_def tie_df_def plain_post_def string_defs iso_pandas_def)

lemma tie_sidebar_default: "sidebar tie_df default_controls = Inr tie_df"
  by (simp add: sidebar_def tie_df_def default_controls_def df_empty_def date_controls_def
      category_filter_def date_filter_def)

lemma tie_nlargest:
  "nlargest 20 (rows tie_df) =
     [plain_post 1 ''b'' 7, plain_post 2 ''c'' 7, plain_post 0 ''a'' 5, plain_post 3 ''d'' 5]"
  by (simp add: nlargest_def tie_df_def plain_post_def)

lemma loaded_filtered_chart_columns:
  assumes "sidebar (fst (load_data pd t)) ui = Inr df_filtered" and "rows df_filtered \<noteq> []"
  shows "''post_id'' \<in> set (df_columns df_filtered) \<and> ''likes'' \<in> set (df_columns df_filtered) \<and>
         ''shares'' \<in> set (df_columns df_filtered) \<and> ''comments'' \<in> set (df_columns df_filtered)"
proof -
  from sidebar_subset(1) [OF assms(1)] assms(2) have "rows (fst (load_data pd t)) \<noteq> []"
    by auto
  then have ne: "fst (load_data pd t) \<noteq> pd_DataFrame"
    by (rule rows_not_DataFrame)
  have c: "set (df_columns df_filtered) = set (result_columns (map normalize_col (columns t)))"
    unfolding sidebar_subset(2) [OF assms(1)] load_data_columns(1) [OF ne] by (rule refl)
  from load_data_columns(3) [OF ne] have "''post_id'' \<in> set (df_columns df_filtered)"
    unfolding c set_result_columns by (rule UnI1)
  moreover have "''likes'' \<in> set (df_columns df_filtered)"
    "''shares'' \<in> set (df_columns df_filtered)" "''comments'' \<in> set (df_columns df_filtered)"
    unfolding c set_result_columns by simp_all
  ultimately show ?thesis by blast
qed

lemma chart_guard:
  assumes "''post_id'' \<in> set (df_columns df) \<and> ''likes'' \<in> set (df_columns df) \<and>
           ''shares'' \<in> set (df_columns df) \<and> ''comments'' \<in> set (df_columns df)"
  shows "df_top_posts_for_chart df = Some (nlargest 20 (rows df))"
  using assms by (simp add: df_top_posts_for_chart_def)

text \<open>
  C8. Whenever the chart's columns are there (line 174), and so for every non-empty
  filtered table that the sidebar derives from a loaded one, the rows charted are
  \<open>nlargest(20, 'total_engagement_per_post')\<close> of the filtered table: at most 20 rows
  (all of them when the table has fewer), each a row of the table, in descending order
  of engagement, rows of equal engagement in their original order with the earliest of
  them kept, and no row left out has more engagement than a row taken.
\<close>

theorem top_20_by_engagement:
  "(''post_id'' \<in> set (df_columns df_filtered) \<and> ''likes'' \<in> set (df_columns df_filtered) \<and>
    ''shares'' \<in> set (df_columns df_filtered) \<and> ''comments'' \<in> set (df_columns df_filtered)) \<or>
   (sidebar (fst (load_data pd t)) ui = Inr df_filtered \<and> rows df_filtered \<noteq> []) \<longrightarrow>
   (\<exists>top. df_top_posts_for_chart df_filtered = Some top \<and>
      length top \<le> 20 \<and>
      length top = min 20 (length (rows df_filtered)) \<and>
      set top \<subseteq> set (rows df_filtered) \<and>
      sorted_wrt (\<lambda>a b. sint (total_engagement_per_post b) \<le> sint (total_engagement_per_post a)) top \<and>
      (\<forall>k. prefix (filter (\<lambda>r. total_engagement_per_post r = k) top)
                  (filter (\<lambda>r. total_engagement_per_post r = k) (rows df_filtered))) \<and>
      (\<forall>a \<in> set top. \<forall>b \<in> set (rows df_filtered).
         sint (total_engagement_per_post a) < sint (total_engagement_per_post b) \<longrightarrow> b \<in> set top))"
proof
  let ?top = "nlargest 20 (rows df_filtered)"
  assume "(''post_id'' \<in> set (df_columns df_filtered) \<and> ''likes'' \<in> set (df_columns df_filtered) \<and>
    ''shares'' \<in> set (df_columns df_filtered) \<and> ''comments'' \<in> set (df_columns df_filtered)) \<or>
   (sidebar (fst (load_data pd t)) ui = Inr df_filtered \<and> rows df_filtered \<noteq> [])"
  then have "''post_id'' \<in> set (df_columns df_filtered) \<and> ''likes'' \<in> set (df_columns df_filtered) \<and>
    ''shares'' \<in> set (df_columns df_filtered) \<and> ''comments'' \<in> set (df_columns df_filtered)"
    using loaded_filtered_chart_columns [of pd t ui df_filtered] by blast
  then have v: "df_top_posts_for_chart df_filtered = Some ?top"
    by (rule chart_guard)
  have len: "length ?top = min 20 (length (rows df_filtered))"
    by (rule nlargest_length)
  then have le: "length ?top \<le> 20"
    by simp
  have sub: "set ?top \<subseteq> set (rows df_filtered)"
    by (rule nlargest_subset)
  have srt: "sorted_wrt (\<lambda>a b. sint (total_engagement_per_post b) \<le> sint (total_engagement_per_post a)) ?top"
    by (rule nlargest_descending)
  have stab: "\<forall>k. prefix (filter (\<lambda>r. total_engagement_per_post r = k) ?top)
                  (filter (\<lambda>r. total_engagement_per_post r = k) (rows df_filtered))"
    by (intro allI nlargest_stable)
  have top: "\<forall>a \<in> set ?top. \<forall>b \<in> set (rows df_filtered).
         sint (total_engagement_per_post a) < sint (total_engagement_per_post b) \<longrightarrow> b \<in> set ?top"
    by (intro ballI impI) (rule nlargest_top)
  from v le len sub srt stab top
  show "\<exists>top. df_top_posts_for_chart df_filtered = Some top \<and>
      length top \<le> 20 \<and>
      length top = min 20 (length (rows df_filtered)) \<and>
      set top \<subseteq> set (rows df_filtered) \<and>
      sorted_wrt (\<lambda>a b. sint (total_engagement_per_post b) \<le> sint (total_engagement_per_post a)) top \<and>
      (\<forall>k. prefix (filter (\<lambda>r. total_engagement_per_post r = k) top)
                  (filter (\<lambda>r. total_engagement_per_post r = k) (rows df_filtered))) \<and>
      (\<forall>a \<in> set top. \<forall>b \<in> set (rows df_filtered).
         sint (total_engagement_per_post a) < sint (total_engagement_per_post b) \<longrightarrow> b \<in> set top)"
    by (intro exI [of _ ?top] conjI)
qed

theorem top_20_by_engagement_witness:
  "sidebar (fst (load_data iso_pandas tie_table)) default_controls = Inr tie_df \<and>
   rows tie_df \<noteq> [] \<and>
   map post_id (rows tie_df) = [''a'', ''b'', ''c'', ''d''] \<and>
   map total_engagement_per_post (rows tie_df) = [5, 7, 7, 5] \<and>
   df_top_posts_for_chart tie_df
     = Some [plain_post 1 ''b'' 7, plain_post 2 ''c'' 7, plain_post 0 ''a'' 5, plain_post 3 ''d'' 5] \<and>
   (\<exists>top. df_top_posts_for_chart tie_df = Some top \<and> length top \<le> 20 \<and>
      map post_id top = [''b'', ''c'', ''a'', ''d''] \<and>
      sorted_wrt (\<lambda>a b. sint (total_engagement_per_post b) \<le> sint (total_engagement_per_post a)) top \<and>
      prefix (filter (\<lambda>r. total_engagement_per_post r = 7) top)
             (filter (\<lambda>r. total_engagement_per_post r = 7) (rows tie_df)) \<and>
      plain_post 1 ''b'' 7 \<in> set top)"
proof -
  have s: "sidebar (fst (load_data iso_pandas tie_table)) default_controls = Inr tie_df"
    unfolding tie_loaded by (rule tie_sidebar_default)
  have n: "rows tie_df \<noteq> []"
    by (simp add: tie_df_def)
  have ids: "map post_id (rows tie_df) = [''a'', ''b'', ''c'', ''d'']"
    "map total_engagement_per_post (rows tie_df) = [5, 7, 7, 5]"
    by (simp_all add: tie_df_def plain_post_def)
  have g: "df_top_posts_for_chart tie_df
     = Some [plain_post 1 ''b'' 7, plain_post 2 ''c'' 7, plain_post 0 ''a'' 5, plain_post 3 ''d'' 5]"
    unfolding tie_nlargest [symmetric] by (simp add: df_top_posts_for_chart_def tie_df_def)
  have m: "plain_post 3 ''d'' 5 \<in> set [plain_post 1 ''b'' 7, plain_post 2 ''c'' 7, plain_post 0 ''a'' 5, plain_post 3 ''d'' 5]"
    "plain_post 1 ''b'' 7 \<in> set (rows tie_df)"
    "sint (total_engagement_per_post (plain_post 3 ''d'' 5))
       < sint (total_engagement_per_post (plain_post 1 ''b'' 7))"
    by (simp_all add: tie_df_def plain_post_def)
  from top_20_by_engagement [of tie_df iso_pandas tie_table default_controls] s n
  obtain top where t: "df_top_posts_for_chart tie_df = Some top"
    and len: "length top \<le> 20"
    and srt: "sorted_wrt (\<lambda>a b. sint (total_engagement_per_post b) \<le> sint (total_engagement_per_post a)) top"
    and stab: "\<forall>k. prefix (filter (\<lambda>r. total_engagement_per_post r = k) top)
                  (filter (\<lambda>r. total_engagement_per_post r = k) (rows tie_df))"
    and best: "\<forall>a \<in> set top. \<forall>b \<in> set (rows tie_df).
         sint (total_engagement_per_post a) < sint (total_engagement_per_post b) \<longrightarrow> b \<in> set top"
    by blast
  from t g have top: "top = [plain_post 1 ''b'' 7, plain_post 2 ''c'' 7, plain_post 0 ''a'' 5, plain_post 3 ''d'' 5]"
    by simp
  have p: "map post_id top = [''b'', ''c'', ''a'', ''d'']"
    unfolding top by (simp add: plain_post_def)
  from stab have st7: "prefix (filter (\<lambda>r. total_engagement_per_post r = 7) top)
             (filter (\<lambda>r. total_engagement_per_post r = 7) (rows tie_df))"
    by (rule spec)
  from best m have b: "plain_post 1 ''b'' 7 \<in> set top"
    unfolding top by blast
  from t len p srt st7 b
  have "\<exists>top. df_top_posts_for_chart tie_df = Some top \<and> length top \<le> 20 \<and>
      map post_id top = [''b'', ''c'', ''a'', ''d''] \<and>
      sorted_wrt (\<lambda>a b. sint (total_engagement_per_post b) \<le> sint (total_engagement_per_post a)) top \<and>
      prefix (filter (\<lambda>r. total_engagement_per_post r = 7) top)
             (filter (\<lambda>r. total_engagement_per_post r = 7) (rows tie_df)) \<and>
      plain_post 1 ''b'' 7 \<in> set top"
    by (intro exI [of _ top] conjI)
  with s n ids g show ?thesis
    by (intro conjI)
qed

lemma loaded_filtered_columns:
  assumes "sidebar (fst (load_data pd t)) ui = Inr df_filtered" and "rows df_filtered \<noteq> []"
  shows "''post_id'' \<in> set (df_columns df_filtered)"
    and "''total_engagement_per_post'' \<in> set (df_columns df_filtered)"
    and "''day_of_week'' \<in> set (df_columns df_filtered)"
    and "day_of_week_categorical df_filtered = (''post_date'' \<in> set (map normalize_col (columns t)))"
    and "distinct (map label (rows df_filtered))"
proof -
  from sidebar_subset(1) [OF assms(1)] assms(2) have "rows (fst (load_data pd t)) \<noteq> []"
    by auto
  then have ne: "fst (load_data pd t) \<noteq> pd_DataFrame"
    by (rule rows_not_DataFrame)
  have c: "set (df_columns df_filtered) = set (result_columns (map normalize_col (columns t)))"
    unfolding sidebar_subset(2) [OF assms(1)] load_data_columns(1) [OF ne] by (rule refl)
  from load_data_columns(3) [OF ne] show "''post_id'' \<in> set (df_columns df_filtered)"
    unfolding c set_result_columns by (rule UnI1)
  show "''total_engagement_per_post'' \<in> set (df_columns df_filtered)"
    unfolding c set_result_columns by simp
  show "''day_of_week'' \<in> set (df_columns df_filtered)"
    unfolding c set_result_columns by simp
  show "day_of_week_categorical df_filtered = (''post_date'' \<in> set (map normalize_col (columns t)))"
    unfolding sidebar_subset(3) [OF assms(1)] by (rule load_data_columns(2) [OF ne])
  show "distinct (map label (rows df_filtered))"
    by (rule sidebar_subset(4) [OF assms(1) load_data_labels])
qed

lemma top_post_first_max:
  assumes "''post_id'' \<in> set (df_columns df)"
    and "''total_engagement_per_post'' \<in> set (df_columns df)"
    and "distinct (map label (rows df))" and "rows df \<noteq> []"
  shows "\<exists>before r after. rows df = before @ r # after \<and> top_post df = Some r \<and>
           (\<forall>x \<in> set before. sint (total_engagement_per_post x) < sint (total_engagement_per_post r)) \<and>
           (\<forall>x \<in> set after. sint (total_engagement_per_post x) \<le> sint (total_engagement_per_post r))"
proof -
  from assms(4) obtain r0 rest where rs: "rows df = r0 # rest"
    by (cases "rows df") auto
  define m where "m = argmax_first r0 rest"
  from argmax_first_split [of r0 rest] obtain before after
    where split: "rows df = before @ m # after"
      and lt: "\<forall>x \<in> set before. sint (total_engagement_per_post x) < sint (total_engagement_per_post m)"
      and le: "\<forall>x \<in> set after. sint (total_engagement_per_post x) \<le> sint (total_engagement_per_post m)"
    unfolding m_def rs by blast
  have i: "idxmax (rows df) = Inr (label m)"
    by (simp add: idxmax_def rs m_def)
  have l: "loc (rows df) (label m) = Some m"
    using assms(3) split by (rule loc_unique)
  from assms(1) have "df_columns df \<noteq> []"
    by auto
  with assms(4) have e: "\<not> df_empty df"
    by (simp add: df_empty_def)
  have "top_post df = Some m"
    unfolding top_post_def i using assms(1, 2) e l by simp
  with split lt le show ?thesis by blast
qed

lemma example_top_post:
  "map_option post_id (top_post example_df) = Some ''2''"
  by (simp add: top_post_def example_df_def df_empty_def idxmax_def loc_def)

lemma tie_top_post: "top_post tie_df = Some (plain_post 1 ''b'' 7)"
  by (simp add: top_post_def tie_df_def df_empty_def idxmax_def loc_def plain_post_def)

text \<open>
  C9. On a non-empty filtered table the top post is a single row of the table whose
  engagement no row exceeds, and it is the first such row: every row before it has
  strictly less. On an empty table the guard of line 285 keeps the code from
  \<open>idxmax\<close>, which would raise. On the two posts of the example, whose totals are 13 and
  15, the top post is post \<open>2\<close>.
\<close>

theorem top_post_argmax:
  "(sidebar (fst (load_data pd t)) ui = Inr df_filtered \<and> rows df_filtered \<noteq> [] \<longrightarrow>
      (\<exists>before r after.
         rows df_filtered = before @ r # after \<and> top_post df_filtered = Some r \<and>
         (\<forall>x \<in> set before. sint (total_engagement_per_post x) < sint (total_engagement_per_post r)) \<and>
         (\<forall>x \<in> set after. sint (total_engagement_per_post x) \<le> sint (total_engagement_per_post r)))) \<and>
   (rows df = [] \<longrightarrow> top_post df = None \<and> (\<exists>e. idxmax (rows df) = Inl e)) \<and>
   map total_engagement_per_post (rows (fst (load_data iso_pandas example_table))) = [13, 15] \<and>
   map_option post_id (top_post (fst (load_data iso_pandas example_table))) = Some ''2''"
proof (intro conjI impI)
  assume a: "sidebar (fst (load_data pd t)) ui = Inr df_filtered \<and> rows df_filtered \<noteq> []"
  then have s: "sidebar (fst (load_data pd t)) ui = Inr df_filtered" and n: "rows df_filtered \<noteq> []"
    by simp_all
  show "\<exists>before r after.
         rows df_filtered = before @ r # after \<and> top_post df_filtered = Some r \<and>
         (\<forall>x \<in> set before. sint (total_engagement_per_post x) < sint (total_engagement_per_post r)) \<and>
         (\<forall>x \<in> set after. sint (total_engagement_per_post x) \<le> sint (total_engagement_per_post r))"
    using loaded_filtered_columns(1) [OF s n] loaded_filtered_columns(2) [OF s n]
      loaded_filtered_columns(5) [OF s n] n
    by (rule top_post_first_max)
next
  assume "rows df = []"
  then show "top_post df = None" and "\<exists>e. idxmax (rows df) = Inl e"
    by (simp_all add: top_post_def df_empty_def idxmax_def)
next
  show "map total_engagement_per_post (rows (fst (load_data iso_pandas example_table))) = [13, 15]"
    unfolding example_loaded by (simp add: example_df_def)
  show "map_option post_id (top_post (fst (load_data iso_pandas example_table))) = Some ''2''"
    unfolding example_loaded by (simp add: example_top_post)
qed

theorem top_post_argmax_witness:
  "sidebar (fst (load_data iso_pandas tie_table)) default_controls = Inr tie_df \<and>
   rows tie_df \<noteq> [] \<and>
   map total_engagement_per_post (rows tie_df) = [5, 7, 7, 5] \<and>
   top_post tie_df = Some (plain_post 1 ''b'' 7) \<and>
   (\<exists>before after.
      rows tie_df = before @ plain_post 1 ''b'' 7 # after \<and>
      (\<forall>x \<in> set before. sint (total_engagement_per_post x) < 7) \<and>
      (\<forall>x \<in> set after. sint (total_engagement_per_post x) \<le> 7)) \<and>
   rows pd_DataFrame = [] \<and>
   top_post pd_DataFrame = None"
proof -
  have s: "sidebar (fst (load_data iso_pandas tie_table)) default_controls = Inr tie_df"
    unfolding tie_loaded by (rule tie_sidebar_default)
  have n: "rows tie_df \<noteq> []"
    by (simp add: tie_df_def)
  have v: "map total_engagement_per_post (rows tie_df) = [5, 7, 7, 5]"
    by (simp add: tie_df_def plain_post_def)
  have e: "rows pd_DataFrame = []"
    by (simp add: pd_DataFrame_def)
  note t = top_post_argmax [of iso_pandas tie_table default_controls tie_df pd_DataFrame]
  from t e have none: "top_post pd_DataFrame = None"
    by blast
  from t s n obtain before r after
    where split: "rows tie_df = before @ r # after" and top: "top_post tie_df = Some r"
      and lt: "\<forall>x \<in> set before. sint (total_engagement_per_post x) < sint (total_engagement_per_post r)"
      and le: "\<forall>x \<in> set after. sint (total_engagement_per_post x) \<le> sint (total_engagement_per_post r)"
    by blast
  from top have r: "r = plain_post 1 ''b'' 7"
    unfolding tie_top_post by simp
  have seven: "sint (total_engagement_per_post (plain_post 1 ''b'' 7)) = 7"
    by (simp add: plain_post_def)
  from split lt le have "\<exists>before after.
      rows tie_df = before @ plain_post 1 ''b'' 7 # after \<and>
      (\<forall>x \<in> set before. sint (total_engagement_per_post x) < 7) \<and>
      (\<forall>x \<in> set after. sint (total_engagement_per_post x) \<le> 7)"
    unfolding r seven by blast
  with s n v tie_top_post e none show ?thesis
    by (intro conjI)
qed

lemma weekday_in_day_order: "d \<in> set day_order"
  by (cases d) (simp_all add: day_order_def)

lemma groupby_all_categories:
  assumes "day_of_week_categorical df" and "\<not> observed pd"
  shows "groupby_day_of_week pd df =
           map (\<lambda>d. (d, sum_list (map total_engagement_per_post
                                      (filter (\<lambda>r. day_of_week r = Some d) (rows df)))))
               day_order"
  using assms by (simp add: groupby_day_of_week_def)

lemma example_engagement_by_day:
  "engagement_by_day iso_pandas example_df =
     Some [(Monday, 13), (Tuesday, 15), (Wednesday, 0), (Thursday, 0), (Friday, 0),
           (Saturday, 0), (Sunday, 0)]"
  by (simp add: engagement_by_day_def groupby_day_of_week_def example_df_def iso_pandas_def
      day_order_def)

text \<open>
  C10, as stated, fails when \<open>groupby\<close> runs with \<open>observed=True\<close>, its default from
  pandas 3 on, which line 230 does not override: on the example, which has a valid
  date column and posts on a Monday and a Tuesday only, the weekday view then has two
  rows, not seven.
\<close>

theorem weekday_groupby_counterexample:
  "''post_date'' \<in> set (map normalize_col (columns example_table)) \<and>
   sidebar (fst (load_data (iso_pandas\<lparr>observed := True\<rparr>) example_table)) default_controls
     = Inr example_df \<and>
   rows example_df \<noteq> [] \<and>
   engagement_by_day (iso_pandas\<lparr>observed := True\<rparr>) example_df
     = Some [(Monday, 13), (Tuesday, 15)]"
proof -
  have p: "''post_date'' \<in> set (map normalize_col (columns example_table))"
    by (simp add: example_table_def string_defs)
  have "load_data (iso_pandas\<lparr>observed := True\<rparr>) example_table = (example_df, [])"
    by (simp add: load_defs example_table_def example_df_def string_defs iso_pandas_def
        iso_date_first iso_date_second)
  then have s: "sidebar (fst (load_data (iso_pandas\<lparr>observed := True\<rparr>) example_table)) default_controls
     = Inr example_df"
    by (simp add: example_sidebar_default)
  have n: "rows example_df \<noteq> []"
    by (simp add: example_df_def)
  have e: "engagement_by_day (iso_pandas\<lparr>observed := True\<rparr>) example_df
     = Some [(Monday, 13), (Tuesday, 15)]"
    by (simp add: engagement_by_day_def groupby_day_of_week_def example_df_def iso_pandas_def
        day_order_def)
  from p s n e show ?thesis by (intro conjI)
qed

text \<open>
  C10, amended. When the table has a \<open>post_date\<close> column, so that \<open>day_of_week\<close> is the
  ordered categorical of line 41, and \<open>groupby\<close> runs with \<open>observed=False\<close> (its
  default up to pandas 2), the weekday view of a non-empty filtered table has exactly
  seven rows, Monday to Sunday in this order, each with the int64 sum of the engagement
  of the rows of that weekday, which is 0 for a weekday that no row falls on.
\<close>

theorem weekday_groupby_zero_fill:
  "\<not> observed pd \<and> ''post_date'' \<in> set (map normalize_col (columns t)) \<and>
   sidebar (fst (load_data pd t)) ui = Inr df_filtered \<and> rows df_filtered \<noteq> [] \<longrightarrow>
     (\<exists>g. engagement_by_day pd df_filtered = Some g \<and>
          length g = 7 \<and>
          map fst g = [Monday, Tuesday, Wednesday, Thursday, Friday, Saturday, Sunday] \<and>
          (\<forall>d s. (d, s) \<in> set g \<longrightarrow>
             s = sum_list (map total_engagement_per_post
                            (filter (\<lambda>r. day_of_week r = Some d) (rows df_filtered)))) \<and>
          (\<forall>d. (\<forall>r \<in> set (rows df_filtered). day_of_week r \<noteq> Some d) \<longrightarrow> (d, 0) \<in> set g))"
proof
  assume a: "\<not> observed pd \<and> ''post_date'' \<in> set (map normalize_col (columns t)) \<and>
   sidebar (fst (load_data pd t)) ui = Inr df_filtered \<and> rows df_filtered \<noteq> []"
  then have s: "sidebar (fst (load_data pd t)) ui = Inr df_filtered"
    and n: "rows df_filtered \<noteq> []" and o: "\<not> observed pd"
    and p: "''post_date'' \<in> set (map normalize_col (columns t))"
    by simp_all
  let ?sum = "\<lambda>d. sum_list (map total_engagement_per_post
                              (filter (\<lambda>r. day_of_week r = Some d) (rows df_filtered)))"
  let ?g = "map (\<lambda>d. (d, ?sum d)) day_order"
  from loaded_filtered_columns(4) [OF s n] p have cat: "day_of_week_categorical df_filtered"
    by simp
  have e: "engagement_by_day pd df_filtered = Some ?g"
    unfolding engagement_by_day_def groupby_all_categories [OF cat o]
    using loaded_filtered_columns(2) [OF s n] loaded_filtered_columns(3) [OF s n] n
    by simp
  have len: "length ?g = 7"
    by (simp add: day_order_def)
  have keys: "map fst ?g = [Monday, Tuesday, Wednesday, Thursday, Friday, Saturday, Sunday]"
    by (simp add: day_order_def comp_def)
  have sums: "\<forall>d s. (d, s) \<in> set ?g \<longrightarrow> s = ?sum d"
    by auto
  have zero: "\<forall>d. (\<forall>r \<in> set (rows df_filtered). day_of_week r \<noteq> Some d) \<longrightarrow> (d, 0) \<in> set ?g"
  proof (intro allI impI)
    fix d
    assume "\<forall>r \<in> set (rows df_filtered). day_of_week r \<noteq> Some d"
    then have "filter (\<lambda>r. day_of_week r = Some d) (rows df_filtered) = []"
      by (simp add: filter_empty_conv)
    then have "?sum d = 0" by simp
    with weekday_in_day_order [of d] show "(d, 0) \<in> set ?g"
      by (metis (mono_tags, lifting) image_eqI list.set_map)
  qed
  from e len keys sums zero
  show "\<exists>g. engagement_by_day pd df_filtered = Some g \<and>
          length g = 7 \<and>
          map fst g = [Monday, Tuesday, Wednesday, Thursday, Friday, Saturday, Sunday] \<and>
          (\<forall>d s. (d, s) \<in> set g \<longrightarrow> s = ?sum d) \<and>
          (\<forall>d. (\<forall>r \<in> set (rows df_filtered). day_of_week r \<noteq> Some d) \<longrightarrow> (d, 0) \<in> set g)"
    by (intro exI [of _ ?g] conjI)
qed

theorem weekday_groupby_zero_fill_witness:
  "\<not> observed iso_pandas \<and>
   ''post_date'' \<in> set (map normalize_col (columns example_table)) \<and>
   sidebar (fst (load_data iso_pandas example_table)) default_controls = Inr example_df \<and>
   rows example_df \<noteq> [] \<and>
   engagement_by_day iso_pandas example_df =
     Some [(Monday, 13), (Tuesday, 15), (Wednesday, 0), (Thursday, 0), (Friday, 0),
           (Saturday, 0), (Sunday, 0)] \<and>
   (\<exists>g. engagement_by_day iso_pandas example_df = Some g \<and> length g = 7 \<and> (Sunday, 0) \<in> set g)"
proof -
  have o: "\<not> observed iso_pandas"
    by (simp add: iso_pandas_def)
  have p: "''post_date'' \<in> set (map normalize_col (columns example_table))"
    by (simp add: example_table_def string_defs)
  have s: "sidebar (fst (load_data iso_pandas example_table)) default_controls = Inr example_df"
    by (simp add: example_loaded example_sidebar_default)
  have n: "rows example_df \<noteq> []"
    by (simp add: example_df_def)
  have sun: "\<forall>r \<in> set (rows example_df). day_of_week r \<noteq> Some Sunday"
    by (simp add: example_df_def)
  from weekday_groupby_zero_fill [of iso_pandas example_table default_controls example_df] o p s n
  obtain g where g: "engagement_by_day iso_pandas example_df = Some g" "length g = 7"
    and z: "\<forall>d. (\<forall>r \<in> set (rows example_df). day_of_week r \<noteq> Some d) \<longrightarrow> (d, 0) \<in> set g"
    by blast
  from z sun have "(Sunday, 0) \<in> set g"
    by blast
  with g have "\<exists>g. engagement_by_day iso_pandas example_df = Some g \<and> length g = 7 \<and>
      (Sunday, 0) \<in> set g"
    by blast
  with o p s n example_engagement_by_day show ?thesis
    by (intro conjI)
qed

end
